theory Spec2Isabelle
  imports Complex_Main "HOL-Library.Sublist"
begin

section \<open>JavaScript values used by the dashboard\<close>

text \<open>
  The model follows \<^verbatim>\<open>src/Component/EarthquakeDashboard.js\<close>, the later and fuller of
  the two components in that file (geofencing, announcement sets, KMZ export). It covers
  \<^verbatim>\<open>isEthiopiaLocation\<close>, \<^verbatim>\<open>fetchEarthquakes\<close>, the filter effect, \<^verbatim>\<open>downloadCSV\<close>,
  \<^verbatim>\<open>generateKML\<close> and \<^verbatim>\<open>downloadKMZ\<close>; rendering, styling and \<^verbatim>\<open>console.log\<close> are
  left out.

  Strings are lists of 8-bit characters, read as ASCII. A JavaScript string that is
  \<^verbatim>\<open>undefined\<close>, \<^verbatim>\<open>null\<close> or empty is the empty list: the source only ever
  tests such a value for truthiness (\<^verbatim>\<open>!place\<close>, \<^verbatim>\<open>f.id\<close>, \<^verbatim>\<open>x || ''\<close>), where the
  three agree. Numbers are \<open>real\<close> (magnitudes, coordinates) or \<open>int\<close> (epoch
  milliseconds); a nullable number is an \<open>option\<close>. An exception is a value of
  \<open>js_error\<close>, and a computation that may raise returns a \<open>result\<close>.
\<close>

datatype js_error = TypeError | RangeError | SyntaxError | NetworkError

type_synonym 'a result = "js_error + 'a"

subsection \<open>String.prototype.toLowerCase, includes, split\<close>

definition toLowerChar :: "char \<Rightarrow> char" where
  "toLowerChar c =
     (case map_of (zip ''ABCDEFGHIJKLMNOPQRSTUVWXYZ'' ''abcdefghijklmnopqrstuvwxyz'') c of
        Some l \<Rightarrow> l
      | None \<Rightarrow> c)"

definition toLowerCase :: "string \<Rightarrow> string" where
  "toLowerCase s = map toLowerChar s"

text \<open>\<^verbatim>\<open>s.includes(sub)\<close>: \<open>sub\<close> occurs in \<open>s\<close> as a contiguous substring.\<close>

fun includes_js :: "string \<Rightarrow> string \<Rightarrow> bool" where
  "includes_js [] sub = (sub = [])"
| "includes_js (c # cs) sub = (prefix sub (c # cs) \<or> includes_js cs sub)"

text \<open>
  \<^verbatim>\<open>s.split(sep)\<close> for a string separator: the text is cut at each occurrence of
  \<open>sep\<close>, found left to right without overlap; the empty separator cuts between
  all characters. \<open>acc\<close> holds the current piece, reversed.
\<close>

function split_from :: "string \<Rightarrow> string \<Rightarrow> string \<Rightarrow> string list" where
  "split_from sep acc s =
     (if s = [] then [rev acc]
      else if sep \<noteq> [] \<and> prefix sep s
           then rev acc # split_from sep [] (drop (length sep) s)
           else split_from sep (hd s # acc) (tl s))"
  by pat_completeness auto

termination
  by (relation "measure (\<lambda>(sep, acc, s). length s)") auto

declare split_from.simps [simp del]

definition split_js :: "string \<Rightarrow> string \<Rightarrow> string list" where
  "split_js s sep = (if sep = [] then map (\<lambda>c. [c]) s else split_from sep [] s)"

text \<open>\<^verbatim>\<open>xs[i]\<close> on an array: \<open>None\<close> is \<^verbatim>\<open>undefined\<close>, read past the end.\<close>

definition index_js :: "'a list \<Rightarrow> nat \<Rightarrow> 'a option" where
  "index_js xs i = (if i < length xs then Some (xs ! i) else None)"

section \<open>The region classifier\<close>

definition excludeCountries :: "string list" where
  "excludeCountries =
     [''yemen'', ''eritrea'', ''sudan'', ''south sudan'', ''kenya'', ''somalia'', ''djibouti'',
      ''egypt'', ''libya'', ''chad'', ''congo'', ''uganda'', ''tanzania'', ''rwanda'', ''burundi'']"

definition ethiopiaKeywords :: "string list" where
  "ethiopiaKeywords =
     [''ethiopia'', ''ethiopian'', ''abyssinia'', ''abyssinian'',
      ''addis ababa'', ''afar'', ''amhara'', ''oromia'', ''tigray'', ''somali'', ''gambela'',
      ''harari'', ''sidama'', ''snnpr'', ''dire dawa'', ''benishangul'', ''gumuz'',
      ''bahir dar'', ''mekelle'', ''gondar'', ''jimma'', ''jijiga'', ''dessie'', ''hawassa'',
      ''harar'', ''debre berhan'', ''arba minch'', ''shashamane'', ''nekemte'', ''assosa'',
      ''semera'',
      ''gojjam'', ''wollo'', ''gonder'', ''wolayita'', ''gurage'', ''hadiya'', ''kembata'',
      ''silte'', ''bale'', ''arsi'', ''hararghe'', ''borena'', ''guji'', ''illubabor'',
      ''wollega'', ''welega'', ''gamo'', ''gofa'', ''keffa'', ''sheka'', ''bench'', ''dawuro'',
      ''rift valley'', ''awash'', ''lake tana'', ''blue nile'', ''omo river'', ''abaya'',
      ''chamo'', ''ziway'', ''langano'', ''shala'', ''awasa'', ''tana'', ''tsana'']"

text \<open>
  The first loop of \<^verbatim>\<open>isEthiopiaLocation\<close>: some excluded country occurs in the
  lowercased text and \<^verbatim>\<open>'ethiopia'\<close> does not.
\<close>

definition excludedPass :: "string \<Rightarrow> bool" where
  "excludedPass placeLower =
     list_ex (\<lambda>country. includes_js placeLower country \<and> \<not> includes_js placeLower ''ethiopia'')
       excludeCountries"

text \<open>The keyword loop, run on the whole text and again on \<^verbatim>\<open>afterOf\<close>.\<close>

definition keywordPass :: "string \<Rightarrow> bool" where
  "keywordPass text = list_ex (\<lambda>keyword. includes_js text keyword) ethiopiaKeywords"

text \<open>
  \<^verbatim>\<open>placeLower.split('of ')[1]\<close> is \<^verbatim>\<open>undefined\<close> when the split has one piece, and
  \<^verbatim>\<open>afterOf.includes\<close> then raises a TypeError; the branch is kept.
\<close>

definition isEthiopiaLocation :: "string \<Rightarrow> bool result" where
  "isEthiopiaLocation place =
     (if place = [] then Inr False
      else
        let placeLower = toLowerCase place in
        if excludedPass placeLower then Inr False
        else if keywordPass placeLower then Inr True
        else if includes_js placeLower ''of '' then
          (case index_js (split_js placeLower ''of '') 1 of
             None \<Rightarrow> Inl TypeError
           | Some afterOf \<Rightarrow> Inr (keywordPass afterOf))
        else Inr False)"


text \<open>
  The specification's wording of the directional pass, for comparison with the code:
  the substring that follows the first occurrence of the separator.
\<close>

fun substringAfterFirst :: "string \<Rightarrow> string \<Rightarrow> string" where
  "substringAfterFirst sep [] = []"
| "substringAfterFirst sep (c # cs) =
     (if prefix sep (c # cs) then drop (length sep) (c # cs) else substringAfterFirst sep cs)"



section \<open>Features, the host environment and the component state\<close>

text \<open>
  A feature of the feed, as parsed from JSON. \<^verbatim>\<open>geometry\<close>, \<^verbatim>\<open>coordinates\<close> and
  \<^verbatim>\<open>properties\<close> may be missing; a coordinate may be \<^verbatim>\<open>null\<close>. The fields that
  are present have the types of the feed: the magnitude and the time are numbers or
  \<^verbatim>\<open>null\<close>, the place and the link are strings, empty when missing. A payload whose
  fields have other types, such as a magnitude that is a string, on which
  \<^verbatim>\<open>toFixed\<close> raises after the announced set has been written, is not described.
\<close>

record geometry =
  coordinates :: "real option list option"

record properties =
  mag :: "real option"
  place :: string
  time :: "int option"
  url :: string

record feature =
  feature_id :: string
  geometry :: "geometry option"
  properties :: "properties option"

text \<open>An array element read by destructuring or interpolation.\<close>

datatype js_number = Undefined | Null | Num real

definition element :: "real option list \<Rightarrow> nat \<Rightarrow> js_number" where
  "element cs i =
     (case index_js cs i of
        None \<Rightarrow> Undefined
      | Some None \<Rightarrow> Null
      | Some (Some x) \<Rightarrow> Num x)"

text \<open>
  What the host provides and the component does not define: number and date rendering
  (locale and platform dependent), date parsing, and the audio and speech facilities.
\<close>

record env =
  toFixed :: "real \<Rightarrow> nat \<Rightarrow> string"
  numberToString :: "real \<Rightarrow> string"
  dateParse :: "string \<Rightarrow> int option"
  localeFormat :: "int \<Rightarrow> string"
  isoFormat :: "int \<Rightarrow> string"
  audioAvailable :: bool
  speechAvailable :: bool

text \<open>
  A \<^verbatim>\<open>Date\<close> is its time value; \<open>None\<close> is the invalid date. \<^verbatim>\<open>new Date(t)\<close> is
  invalid beyond 8.64e15 milliseconds from the epoch. Relational operators on dates
  compare time values, and any comparison with an invalid date is false.
\<close>

type_synonym date = "int option"

definition newDate :: "int \<Rightarrow> date" where
  "newDate t = (if \<bar>t\<bar> \<le> 8640000000000000 then Some t else None)"

definition date_ge :: "date \<Rightarrow> date \<Rightarrow> bool" where
  "date_ge a b = (case a of None \<Rightarrow> False | Some x \<Rightarrow> (case b of None \<Rightarrow> False | Some y \<Rightarrow> y \<le> x))"

definition date_le :: "date \<Rightarrow> date \<Rightarrow> bool" where
  "date_le a b = (case a of None \<Rightarrow> False | Some x \<Rightarrow> (case b of None \<Rightarrow> False | Some y \<Rightarrow> x \<le> y))"

definition date_gt :: "date \<Rightarrow> date \<Rightarrow> bool" where
  "date_gt a b = (case a of None \<Rightarrow> False | Some x \<Rightarrow> (case b of None \<Rightarrow> False | Some y \<Rightarrow> y < x))"

definition toISOString :: "env \<Rightarrow> date \<Rightarrow> string result" where
  "toISOString E d = (case d of None \<Rightarrow> Inl RangeError | Some t \<Rightarrow> Inr (isoFormat E t))"

definition toLocaleString :: "env \<Rightarrow> date \<Rightarrow> string" where
  "toLocaleString E d = (case d of None \<Rightarrow> ''Invalid Date'' | Some t \<Rightarrow> localeFormat E t)"

text \<open>Truthiness of \<^verbatim>\<open>properties.time\<close>: present and not zero.\<close>

definition truthyTime :: "int option \<Rightarrow> bool" where
  "truthyTime t = (case t of None \<Rightarrow> False | Some n \<Rightarrow> n \<noteq> 0)"

text \<open>\<^verbatim>\<open>a || b\<close> on strings.\<close>

definition orElse :: "string \<Rightarrow> string \<Rightarrow> string" where
  "orElse a b = (if a = [] then b else a)"

text \<open>\<^verbatim>\<open>eq.properties?.place\<close>, \<^verbatim>\<open>eq.properties?.url\<close>, \<^verbatim>\<open>eq.properties?.mag\<close>, \<^verbatim>\<open>eq.properties?.time\<close>.\<close>

definition placeOf :: "feature \<Rightarrow> string" where
  "placeOf eq = (case properties eq of None \<Rightarrow> [] | Some p \<Rightarrow> place p)"

definition urlOf :: "feature \<Rightarrow> string" where
  "urlOf eq = (case properties eq of None \<Rightarrow> [] | Some p \<Rightarrow> url p)"

definition magOf :: "feature \<Rightarrow> real option" where
  "magOf eq = (case properties eq of None \<Rightarrow> None | Some p \<Rightarrow> mag p)"

definition timeOf :: "feature \<Rightarrow> int option" where
  "timeOf eq = (case properties eq of None \<Rightarrow> None | Some p \<Rightarrow> time p)"

text \<open>\<^verbatim>\<open>Array.prototype.filter\<close> and \<^verbatim>\<open>map\<close> with a callback that may raise.\<close>

fun filter_r :: "('a \<Rightarrow> bool result) \<Rightarrow> 'a list \<Rightarrow> 'a list result" where
  "filter_r p [] = Inr []"
| "filter_r p (x # xs) =
     (case p x of
        Inl e \<Rightarrow> Inl e
      | Inr b \<Rightarrow>
          (case filter_r p xs of
             Inl e \<Rightarrow> Inl e
           | Inr ys \<Rightarrow> Inr (if b then x # ys else ys)))"

fun map_r :: "('a \<Rightarrow> 'b result) \<Rightarrow> 'a list \<Rightarrow> 'b list result" where
  "map_r f [] = Inr []"
| "map_r f (x # xs) =
     (case f x of
        Inl e \<Rightarrow> Inl e
      | Inr y \<Rightarrow> (case map_r f xs of Inl e \<Rightarrow> Inl e | Inr ys \<Rightarrow> Inr (y # ys)))"

text \<open>\<^verbatim>\<open>Array.prototype.join\<close>.\<close>

fun join_js :: "string \<Rightarrow> string list \<Rightarrow> string" where
  "join_js sep [] = []"
| "join_js sep [x] = x"
| "join_js sep (x # y # zs) = x @ sep @ join_js sep (y # zs)"

text \<open>\<^verbatim>\<open>String.prototype.trim\<close>, on ASCII white space.\<close>

definition isWhiteSpace :: "char \<Rightarrow> bool" where
  "isWhiteSpace c = (c \<in> set [CHR '' '', CHR 0x09, CHR 0x0A, CHR 0x0B, CHR 0x0C, CHR 0x0D])"

definition trim :: "string \<Rightarrow> string" where
  "trim s = rev (dropWhile isWhiteSpace (rev (dropWhile isWhiteSpace s)))"

text \<open>What the component does to the outside, in the order it does it.\<close>

datatype blob =
    TextBlob string string
  | ZipBlob "(string \<times> string) list"

datatype effect =
    Play
  | SpeechCancel
  | Speak string
  | Alert string
  | ConsoleError
  | Uncaught js_error
  | Download string blob

text \<open>
  The state hooks of \<^verbatim>\<open>EarthquakeDashboard\<close> that the data path reads or writes.
  A cycle reads the two id sets as they stand when it starts.
\<close>

record dashboard =
  earthquakes :: "feature list"
  filteredEarthquakes :: "feature list"
  startDate :: string
  endDate :: string
  minMag :: real
  recentCount :: nat
  isLoading :: bool
  lastUpdated :: int
  previousEarthquakeIds :: "string set"
  announcedEarthquakeIds :: "string set"
  isDownloading :: bool

section \<open>fetchEarthquakes\<close>

text \<open>
  What \<^verbatim>\<open>fetch\<close> and \<^verbatim>\<open>res.json()\<close> deliver: the request is rejected, or a response
  arrives with its \<^verbatim>\<open>ok\<close> flag and a body that is not JSON, or is JSON with or without
  a \<^verbatim>\<open>features\<close> array (whose elements may be \<^verbatim>\<open>null\<close>).
\<close>

datatype body = NotJson | Json "feature option list option"

datatype outcome = Rejected | Response bool body

definition validFeature :: "feature option \<Rightarrow> bool result" where
  "validFeature f =
     (case f of
        None \<Rightarrow> Inr False
      | Some f \<Rightarrow>
          (case geometry f of
             None \<Rightarrow> Inr False
           | Some g \<Rightarrow>
               (case coordinates g of
                  None \<Rightarrow> Inr False
                | Some cs \<Rightarrow>
                    if length cs \<noteq> 3 then Inr False
                    else
                      (case properties f of
                         None \<Rightarrow> Inr False
                       | Some p \<Rightarrow>
                           if \<not> truthyTime (time p) then Inr False
                           else if feature_id f = [] then Inr False
                           else isEthiopiaLocation (place p)))))"

definition validFeatures :: "feature option list \<Rightarrow> feature list result" where
  "validFeatures features =
     (case filter_r validFeature features of
        Inl e \<Rightarrow> Inl e
      | Inr fs \<Rightarrow> Inr [f. Some f \<leftarrow> fs])"

text \<open>The callback of the \<^verbatim>\<open>newEarthquakes\<close> filter.\<close>

definition isNew :: "dashboard \<Rightarrow> int \<Rightarrow> feature \<Rightarrow> bool result" where
  "isNew st oneHourAgo f =
     (if feature_id f \<in> previousEarthquakeIds st then Inr False
      else if feature_id f \<in> announcedEarthquakeIds st then Inr False
      else
        (case properties f of
           None \<Rightarrow> Inl TypeError
         | Some p \<Rightarrow> Inr (case time p of None \<Rightarrow> False | Some t \<Rightarrow> oneHourAgo < t)))"

definition newEarthquakes :: "dashboard \<Rightarrow> int \<Rightarrow> feature list \<Rightarrow> feature list result" where
  "newEarthquakes st now fs = filter_r (isNew st (now - 60 * 60 * 1000)) fs"

text \<open>The place name of an alert: the piece after \<^verbatim>\<open>'of '\<close>, then up to the first comma.\<close>

definition afterOf :: "string \<Rightarrow> string result" where
  "afterOf placeName =
     (if includes_js placeName ''of '' then
        (case index_js (split_js placeName ''of '') 1 of
           None \<Rightarrow> Inl TypeError
         | Some name \<Rightarrow> Inr name)
      else Inr placeName)"

definition beforeComma :: "string \<Rightarrow> string result" where
  "beforeComma name =
     (if includes_js name '','' then
        (case index_js (split_js name '','') 0 of
           None \<Rightarrow> Inl TypeError
         | Some first \<Rightarrow> Inr first)
      else Inr name)"

definition locationName :: "string \<Rightarrow> string result" where
  "locationName placeName =
     (case afterOf placeName of
        Inl e \<Rightarrow> Inl e
      | Inr name \<Rightarrow> beforeComma name)"

text \<open>\<^verbatim>\<open>eq.properties?.mag?.toFixed(1)\<close>: \<open>None\<close> is \<^verbatim>\<open>undefined\<close>.\<close>

definition magFixed1 :: "env \<Rightarrow> feature \<Rightarrow> string option" where
  "magFixed1 E eq = (case magOf eq of None \<Rightarrow> None | Some m \<Rightarrow> Some (toFixed E m 1))"

definition voiceAlert :: "env \<Rightarrow> feature \<Rightarrow> effect list result" where
  "voiceAlert E eq =
     (let place = orElse (placeOf eq) ''Unknown location'';
          mag = orElse (case magFixed1 E eq of None \<Rightarrow> [] | Some s \<Rightarrow> s) ''unknown''
      in case locationName place of
           Inl e \<Rightarrow> Inl e
         | Inr name \<Rightarrow>
             Inr (if speechAvailable E
                  then [SpeechCancel,
                        Speak (''New earthquake detected. Magnitude '' @ mag @ '' at ''
                               @ trim name @ ''.'')]
                  else []))"

text \<open>The \<^verbatim>\<open>forEach\<close> over the new earthquakes: effects so far, and the exception if any.\<close>

fun voiceAlerts :: "env \<Rightarrow> feature list \<Rightarrow> effect list \<times> js_error option" where
  "voiceAlerts E [] = ([], None)"
| "voiceAlerts E (eq # eqs) =
     (case voiceAlert E eq of
        Inl e \<Rightarrow> ([], Some e)
      | Inr spoken \<Rightarrow> (spoken @ fst (voiceAlerts E eqs), snd (voiceAlerts E eqs)))"

text \<open>The popup for the last new earthquake; the siren emoji is written in UTF-8.\<close>

definition alertText :: "env \<Rightarrow> feature \<Rightarrow> string result" where
  "alertText E latest =
     (case locationName (orElse (placeOf latest) ''Unknown location'') of
        Inl e \<Rightarrow> Inl e
      | Inr placeName \<Rightarrow>
          Inr ([CHR 0xF0, CHR 0x9F, CHR 0x9A, CHR 0xA8] @ '' NEW EARTHQUAKE ALERT!''
               @ [CHR 0x0A, CHR 0x0A] @ ''Magnitude: ''
               @ (case magFixed1 E latest of None \<Rightarrow> ''undefined'' | Some s \<Rightarrow> s)
               @ [CHR 0x0A] @ ''Location: '' @ placeName
               @ [CHR 0x0A] @ ''Time: ''
               @ toLocaleString E (case timeOf latest of None \<Rightarrow> None | Some t \<Rightarrow> newDate t)))"

text \<open>
  The outcome of the \<^verbatim>\<open>try\<close> block: the state reached, the effects, the new
  earthquakes found, and the exception that ended it, if one did.
\<close>

record attempt =
  reached :: dashboard
  effects :: "effect list"
  novel :: "feature list"
  raised :: "js_error option"

definition announce :: "env \<Rightarrow> dashboard \<Rightarrow> feature list \<Rightarrow> attempt" where
  "announce E st new =
     (let st1 = st\<lparr>announcedEarthquakeIds :=
                    announcedEarthquakeIds st \<union> set (map feature_id new)\<rparr>;
          beep = (if audioAvailable E then [Play] else []);
          spoken = voiceAlerts E new
      in case snd spoken of
           Some e \<Rightarrow> \<lparr>reached = st1, effects = beep @ fst spoken, novel = new, raised = Some e\<rparr>
         | None \<Rightarrow>
             (case alertText E (last new) of
                Inl e \<Rightarrow>
                  \<lparr>reached = st1, effects = beep @ fst spoken, novel = new, raised = Some e\<rparr>
              | Inr text \<Rightarrow>
                  \<lparr>reached = st1, effects = beep @ fst spoken @ [Alert text], novel = new,
                   raised = None\<rparr>))"

text \<open>
  The features counted as recent; \<^verbatim>\<open>setHours(getHours() - 1)\<close> is taken as one hour
  before \<open>now\<close>.
\<close>

definition recent :: "int \<Rightarrow> feature list \<Rightarrow> feature list" where
  "recent now fs =
     filter (\<lambda>f. truthyTime (timeOf f)
                  \<and> date_gt (case timeOf f of None \<Rightarrow> None | Some t \<Rightarrow> newDate t)
                       (newDate (now - 60 * 60 * 1000))) fs"

definition fetchTry :: "env \<Rightarrow> int \<Rightarrow> outcome \<Rightarrow> dashboard \<Rightarrow> attempt" where
  "fetchTry E now out st =
     (case out of
        Rejected \<Rightarrow> \<lparr>reached = st, effects = [], novel = [], raised = Some NetworkError\<rparr>
      | Response ok NotJson \<Rightarrow>
          \<lparr>reached = st, effects = [], novel = [], raised = Some SyntaxError\<rparr>
      | Response ok (Json None) \<Rightarrow>
          \<lparr>reached = st, effects = [], novel = [], raised = Some TypeError\<rparr>
      | Response ok (Json (Some features)) \<Rightarrow>
          (case validFeatures features of
             Inl e \<Rightarrow> \<lparr>reached = st, effects = [], novel = [], raised = Some e\<rparr>
           | Inr valid \<Rightarrow>
               (case newEarthquakes st now valid of
                  Inl e \<Rightarrow> \<lparr>reached = st, effects = [], novel = [], raised = Some e\<rparr>
                | Inr new \<Rightarrow>
                    (let a = (if new \<noteq> [] then announce E st new
                              else \<lparr>reached = st, effects = [], novel = [], raised = None\<rparr>)
                     in case raised a of
                          Some e \<Rightarrow> a
                        | None \<Rightarrow>
                            a\<lparr>reached := (reached a)
                                 \<lparr>previousEarthquakeIds := set (map feature_id valid),
                                  earthquakes := valid,
                                  recentCount := length (recent now valid),
                                  lastUpdated := now\<rparr>\<rparr>))))"

text \<open>
  One call of \<^verbatim>\<open>fetchEarthquakes\<close>: the loading flag is raised, the \<^verbatim>\<open>try\<close> block
  runs, the \<^verbatim>\<open>catch\<close> logs an exception, and \<^verbatim>\<open>finally\<close> clears the flag.
\<close>

definition fetchEarthquakes :: "env \<Rightarrow> int \<Rightarrow> outcome \<Rightarrow> dashboard \<Rightarrow> attempt" where
  "fetchEarthquakes E now out st =
     (let a = fetchTry E now out (st\<lparr>isLoading := True\<rparr>)
      in \<lparr>reached = (reached a)\<lparr>isLoading := False\<rparr>,
          effects = effects a @ (case raised a of None \<Rightarrow> [] | Some e \<Rightarrow> [ConsoleError]),
          novel = novel a,
          raised = None\<rparr>)"

text \<open>
  Calls that do not overlap: each starts from the state the previous one left, so the id
  sets it reads are those of the state it ends in.
\<close>

fun cycles :: "env \<Rightarrow> (int \<times> outcome) list \<Rightarrow> dashboard \<Rightarrow> dashboard" where
  "cycles E [] st = st"
| "cycles E ((now, out) # rest) st = cycles E rest (reached (fetchEarthquakes E now out st))"

text \<open>
  A call while another is outstanding. The callback is memoised on the two id sets
  (\<^verbatim>\<open>useCallback(..., [previousEarthquakeIds, announcedEarthquakeIds])\<close>), so a call
  reads them as they were in the render that created it, \<open>snap\<close>, while its setters act
  on the state at the time the response arrives, \<open>st\<close>. The announced set is replaced by
  \<^verbatim>\<open>new Set([...announcedEarthquakeIds, ...])\<close>, built from \<open>snap\<close>.
\<close>

definition announceFrom :: "env \<Rightarrow> dashboard \<Rightarrow> dashboard \<Rightarrow> feature list \<Rightarrow> attempt" where
  "announceFrom E snap st new =
     (let a = announce E snap new
      in a\<lparr>reached := st\<lparr>announcedEarthquakeIds := announcedEarthquakeIds (reached a)\<rparr>\<rparr>)"

definition fetchTryFrom :: "env \<Rightarrow> int \<Rightarrow> outcome \<Rightarrow> dashboard \<Rightarrow> dashboard \<Rightarrow> attempt" where
  "fetchTryFrom E now out snap st =
     (case out of
        Rejected \<Rightarrow> \<lparr>reached = st, effects = [], novel = [], raised = Some NetworkError\<rparr>
      | Response ok NotJson \<Rightarrow>
          \<lparr>reached = st, effects = [], novel = [], raised = Some SyntaxError\<rparr>
      | Response ok (Json None) \<Rightarrow>
          \<lparr>reached = st, effects = [], novel = [], raised = Some TypeError\<rparr>
      | Response ok (Json (Some features)) \<Rightarrow>
          (case validFeatures features of
             Inl e \<Rightarrow> \<lparr>reached = st, effects = [], novel = [], raised = Some e\<rparr>
           | Inr valid \<Rightarrow>
               (case newEarthquakes snap now valid of
                  Inl e \<Rightarrow> \<lparr>reached = st, effects = [], novel = [], raised = Some e\<rparr>
                | Inr new \<Rightarrow>
                    (let a = (if new \<noteq> [] then announceFrom E snap st new
                              else \<lparr>reached = st, effects = [], novel = [], raised = None\<rparr>)
                     in case raised a of
                          Some e \<Rightarrow> a
                        | None \<Rightarrow>
                            a\<lparr>reached := (reached a)
                                 \<lparr>previousEarthquakeIds := set (map feature_id valid),
                                  earthquakes := valid,
                                  recentCount := length (recent now valid),
                                  lastUpdated := now\<rparr>\<rparr>))))"

definition fetchEarthquakesFrom ::
  "env \<Rightarrow> int \<Rightarrow> outcome \<Rightarrow> dashboard \<Rightarrow> dashboard \<Rightarrow> attempt" where
  "fetchEarthquakesFrom E now out snap st =
     (let a = fetchTryFrom E now out snap (st\<lparr>isLoading := True\<rparr>)
      in \<lparr>reached = (reached a)\<lparr>isLoading := False\<rparr>,
          effects = effects a @ (case raised a of None \<Rightarrow> [] | Some e \<Rightarrow> [ConsoleError]),
          novel = novel a,
          raised = None\<rparr>)"

section \<open>The filter effect\<close>

text \<open>
  The callback of \<^verbatim>\<open>earthquakes.filter\<close> in the effect that depends on
  \<^verbatim>\<open>[earthquakes, startDate, endDate, minMag]\<close>. \<^verbatim>\<open>eqTime\<close> is \<^verbatim>\<open>null\<close> (here
  the outer \<open>None\<close>) when \<^verbatim>\<open>properties.time\<close> is falsy, and a date otherwise.
\<close>

definition eqTime :: "properties \<Rightarrow> date option" where
  "eqTime p = (case time p of None \<Rightarrow> None | Some t \<Rightarrow> if t = 0 then None else Some (newDate t))"

definition keeps :: "env \<Rightarrow> dashboard \<Rightarrow> feature \<Rightarrow> bool" where
  "keeps E st eq =
     (case properties eq of
        None \<Rightarrow> False
      | Some p \<Rightarrow>
          (case geometry eq of
             None \<Rightarrow> False
           | Some g \<Rightarrow>
               (case eqTime p of
                  None \<Rightarrow> False
                | Some d \<Rightarrow>
                    (case mag p of
                       None \<Rightarrow> False
                     | Some eqMag \<Rightarrow>
                         (let isAfterStart =
                                (startDate st = [] \<or> date_ge d (dateParse E (startDate st)));
                              isBeforeEnd =
                                (endDate st = [] \<or> date_le d (dateParse E (endDate st)));
                              isMagValid = (minMag st \<le> eqMag)
                          in isAfterStart \<and> isBeforeEnd \<and> isMagValid)))))"

definition applyFilters :: "env \<Rightarrow> dashboard \<Rightarrow> dashboard" where
  "applyFilters E st =
     (if earthquakes st = [] then st\<lparr>filteredEarthquakes := []\<rparr>
      else st\<lparr>filteredEarthquakes := filter (keeps E st) (earthquakes st)\<rparr>)"

text \<open>
  The specification's wording of the filter, for comparison with the code: a record is
  included when its origin time and its magnitude are not null, the origin time is not
  before the start date and not after the end date, where these are set, and the
  magnitude is at least the minimum.
\<close>

definition included :: "env \<Rightarrow> dashboard \<Rightarrow> feature \<Rightarrow> bool" where
  "included E criteria r =
     (case timeOf r of
        None \<Rightarrow> False
      | Some originTime \<Rightarrow>
          (case magOf r of
             None \<Rightarrow> False
           | Some magnitude \<Rightarrow>
               (startDate criteria = []
                  \<or> date_ge (newDate originTime) (dateParse E (startDate criteria)))
               \<and> (endDate criteria = []
                  \<or> date_le (newDate originTime) (dateParse E (endDate criteria)))
               \<and> minMag criteria \<le> magnitude))"

section \<open>CSV export\<close>

definition headers :: "string list" where
  "headers = [''Earthquake ID'', ''Location/Place'', ''Magnitude'', ''Date & Time'',
              ''Longitude'', ''Latitude'', ''Depth (km)'', ''USGS URL'']"

text \<open>\<^verbatim>\<open>x !== null ? x.toFixed(d) : ''\<close>; \<^verbatim>\<open>undefined\<close> passes the test and has no method.\<close>

definition fixedOrEmpty :: "env \<Rightarrow> nat \<Rightarrow> js_number \<Rightarrow> string result" where
  "fixedOrEmpty E d x =
     (case x of
        Null \<Rightarrow> Inr []
      | Num v \<Rightarrow> Inr (toFixed E v d)
      | Undefined \<Rightarrow> Inl TypeError)"

definition escapedPlace :: "feature \<Rightarrow> string" where
  \<open>escapedPlace eq =
     (let placeText = orElse (placeOf eq) ''Unknown location''
      in if includes_js placeText '','' then ''"'' @ placeText @ ''"'' else placeText)\<close>

definition csvRow :: "env \<Rightarrow> feature \<Rightarrow> string result" where
  "csvRow E eq =
     (case geometry eq of
        None \<Rightarrow> Inl TypeError
      | Some g \<Rightarrow>
          (let cs = (case coordinates g of None \<Rightarrow> [None, None, None] | Some cs \<Rightarrow> cs)
           in case fixedOrEmpty E 6 (element cs 0) of
                Inl e \<Rightarrow> Inl e
              | Inr lon \<Rightarrow>
                  (case fixedOrEmpty E 6 (element cs 1) of
                     Inl e \<Rightarrow> Inl e
                   | Inr lat \<Rightarrow>
                       (case fixedOrEmpty E 2 (element cs 2) of
                          Inl e \<Rightarrow> Inl e
                        | Inr depth \<Rightarrow>
                            Inr (join_js '',''
                                  [feature_id eq,
                                   escapedPlace eq,
                                   (case magOf eq of None \<Rightarrow> [] | Some m \<Rightarrow> toFixed E m 2),
                                   (case timeOf eq of
                                      None \<Rightarrow> []
                                    | Some t \<Rightarrow>
                                        if t = 0 then [] else toLocaleString E (newDate t)),
                                   lon, lat, depth,
                                   urlOf eq])))))"

definition noEarthquakes :: string where
  "noEarthquakes = ''No earthquakes to download for the selected filters.''"

definition csvText :: "string list \<Rightarrow> string" where
  "csvText rows = join_js [CHR 0x0A] (join_js '','' headers # rows)"

definition exportName :: "dashboard \<Rightarrow> string \<Rightarrow> string" where
  "exportName st ext = ''ethiopia_earthquakes_'' @ startDate st @ ''_to_'' @ endDate st @ ext"

text \<open>\<^verbatim>\<open>const rows = filteredEarthquakes.map(...)\<close>.\<close>

definition csvRows :: "env \<Rightarrow> dashboard \<Rightarrow> string list result" where
  "csvRows E st = map_r (csvRow E) (filteredEarthquakes st)"

text \<open>
  \<^verbatim>\<open>downloadCSV\<close>: the state it leaves and its effects. The blob is the byte order
  mark (in UTF-8) followed by the CSV text. The function has no \<^verbatim>\<open>try\<close>: an exception
  in a row leaves it uncaught.
\<close>

definition downloadCSV :: "env \<Rightarrow> dashboard \<Rightarrow> dashboard \<times> effect list" where
  "downloadCSV E st =
     (if filteredEarthquakes st = [] then (st, [Alert noEarthquakes])
      else
        (case csvRows E st of
           Inl e \<Rightarrow> (st, [Uncaught e])
         | Inr rows \<Rightarrow>
             (st, [Download (exportName st ''.csv'')
                     (TextBlob ([CHR 0xEF, CHR 0xBB, CHR 0xBF] @ csvText rows)
                        ''text/csv;charset=utf-8;'')])))"

text \<open>The lines of a text: its pieces between line feeds.\<close>

definition lines_of :: "string \<Rightarrow> string list" where
  "lines_of t = split_js t [CHR 0x0A]"

text \<open>The lines of the text that \<^verbatim>\<open>downloadCSV\<close> puts into the file.\<close>

definition csvLines :: "env \<Rightarrow> dashboard \<Rightarrow> string list" where
  "csvLines E st = (case csvRows E st of Inl e \<Rightarrow> [] | Inr rows \<Rightarrow> lines_of (csvText rows))"

section \<open>KML and KMZ export\<close>

definition kmlHeader :: string where
  \<open>kmlHeader =
     ''<?xml version="1.0" encoding="UTF-8"?>\<newline>''
     @ ''<kml xmlns="http://www.opengis.net/kml/2.2">\<newline>''
     @ ''  <Document>\<newline>''
     @ ''    <name>Ethiopia Earthquakes</name>\<newline>''
     @ ''    <Style id="earthquakeStyle">\<newline>''
     @ ''      <IconStyle>\<newline>''
     @ ''        <scale>0.8</scale>\<newline>''
     @ ''        <Icon>\<newline>''
     @ ''          <href>http://maps.google.com/mapfiles/kml/shapes/earthquake.png</href>\<newline>''
     @ ''        </Icon>\<newline>''
     @ ''      </IconStyle>\<newline>''
     @ ''      <LabelStyle>\<newline>''
     @ ''        <scale>0</scale>\<newline>''
     @ ''      </LabelStyle>\<newline>''
     @ ''    </Style>''\<close>

definition kmlFooter :: string where
  \<open>kmlFooter =
     ''\<newline>''
     @ ''  </Document>\<newline>''
     @ ''</kml>''\<close>

text \<open>
  The values that \<^verbatim>\<open>generateKML\<close> interpolates into a placemark: the constants
  \<^verbatim>\<open>lon\<close>, \<^verbatim>\<open>lat\<close>, \<^verbatim>\<open>mag\<close>, \<^verbatim>\<open>place\<close>, \<^verbatim>\<open>time\<close>, \<^verbatim>\<open>url\<close> of the loop body and
  the two expressions \<^verbatim>\<open>depth?.toFixed(1)\<close> and \<^verbatim>\<open>new Date(time).toLocaleString()\<close>.
\<close>

record placemarkValues =
  lonText :: string
  latText :: string
  depthText :: string
  magText :: string
  placeText :: string
  timeText :: string
  localTimeText :: string
  urlText :: string

text \<open>A number in a template literal.\<close>

definition shown :: "env \<Rightarrow> js_number \<Rightarrow> string" where
  "shown E x =
     (case x of
        Undefined \<Rightarrow> ''undefined''
      | Null \<Rightarrow> ''null''
      | Num v \<Rightarrow> numberToString E v)"

definition shownFixed1 :: "env \<Rightarrow> js_number \<Rightarrow> string" where
  "shownFixed1 E x =
     (case x of
        Undefined \<Rightarrow> ''undefined''
      | Null \<Rightarrow> ''undefined''
      | Num v \<Rightarrow> toFixed E v 1)"

text \<open>
  Destructuring \<^verbatim>\<open>eq.geometry.coordinates\<close> raises a TypeError when the geometry or
  the array is missing; \<^verbatim>\<open>toISOString\<close> raises a RangeError on an invalid date.
\<close>

definition placemarkValuesOf :: "env \<Rightarrow> feature \<Rightarrow> placemarkValues result" where
  "placemarkValuesOf E eq =
     (case geometry eq of
        None \<Rightarrow> Inl TypeError
      | Some g \<Rightarrow>
          (case coordinates g of
             None \<Rightarrow> Inl TypeError
           | Some cs \<Rightarrow>
               (case (case timeOf eq of
                        None \<Rightarrow> Inr ''Unknown''
                      | Some t \<Rightarrow>
                          if t = 0 then Inr ''Unknown'' else toISOString E (newDate t)) of
                  Inl e \<Rightarrow> Inl e
                | Inr isoText \<Rightarrow>
                    Inr \<lparr>lonText = shown E (element cs 0),
                         latText = shown E (element cs 1),
                         depthText = shownFixed1 E (element cs 2),
                         magText =
                           orElse (case magFixed1 E eq of None \<Rightarrow> [] | Some s \<Rightarrow> s) ''Unknown'',
                         placeText = orElse (placeOf eq) ''Unknown location'',
                         timeText = isoText,
                         localTimeText = toLocaleString E (dateParse E isoText),
                         urlText = urlOf eq\<rparr>)))"

text \<open>
  The template literal of a placemark, written in three pieces: up to the style, the
  point, and the extended data.
\<close>

definition placemarkOpen :: "placemarkValues \<Rightarrow> string" where
  \<open>placemarkOpen v =
     ''\<newline>''
     @ ''    <Placemark>\<newline>''
     @ ''      <name>M''
     @ magText v
     @ '' - ''
     @ placeText v
     @ ''</name>\<newline>''
     @ ''      <description>\<newline>''
     @ ''        <![CDATA[\<newline>''
     @ ''          <div style="padding:10px;">\<newline>''
     @ ''            <h3>Earthquake: M''
     @ magText v
     @ ''</h3>\<newline>''
     @ ''            <p><b>Location:</b> ''
     @ placeText v
     @ ''</p>\<newline>''
     @ ''            <p><b>Time:</b> ''
     @ localTimeText v
     @ ''</p>\<newline>''
     @ ''            <p><b>Depth:</b> ''
     @ depthText v
     @ '' km</p>\<newline>''
     @ ''            <p><b>Magnitude:</b> ''
     @ magText v
     @ ''</p>\<newline>''
     @ ''            <p><a href="''
     @ urlText v
     @ ''" target="_blank">View on USGS</a></p>\<newline>''
     @ ''          </div>\<newline>''
     @ ''        ]]>\<newline>''
     @ ''      </description>\<newline>''
     @ ''      <styleUrl>#earthquakeStyle</styleUrl>\<newline>''\<close>

definition placemarkPoint :: "placemarkValues \<Rightarrow> string" where
  \<open>placemarkPoint v =
     ''      <Point>\<newline>''
     @ ''        <coordinates>''
     @ lonText v
     @ '',''
     @ latText v
     @ '',0</coordinates>\<newline>''
     @ ''      </Point>\<newline>''\<close>

definition placemarkData :: "placemarkValues \<Rightarrow> string" where
  \<open>placemarkData v =
     ''      <ExtendedData>\<newline>''
     @ ''        <Data name="magnitude">\<newline>''
     @ ''          <value>''
     @ magText v
     @ ''</value>\<newline>''
     @ ''        </Data>\<newline>''
     @ ''        <Data name="depth">\<newline>''
     @ ''          <value>''
     @ depthText v
     @ ''</value>\<newline>''
     @ ''        </Data>\<newline>''
     @ ''        <Data name="time">\<newline>''
     @ ''          <value>''
     @ timeText v
     @ ''</value>\<newline>''
     @ ''        </Data>\<newline>''
     @ ''      </ExtendedData>\<newline>''
     @ ''    </Placemark>''\<close>

definition placemarkText :: "placemarkValues \<Rightarrow> string" where
  "placemarkText v = placemarkOpen v @ placemarkPoint v @ placemarkData v"

definition placemark :: "env \<Rightarrow> feature \<Rightarrow> string result" where
  "placemark E eq =
     (case placemarkValuesOf E eq of
        Inl e \<Rightarrow> Inl e
      | Inr v \<Rightarrow> Inr (placemarkText v))"

definition generateKML :: "env \<Rightarrow> feature list \<Rightarrow> string result" where
  "generateKML E eqs =
     (case map_r (placemark E) eqs of
        Inl e \<Rightarrow> Inl e
      | Inr blocks \<Rightarrow> Inr (kmlHeader @ concat blocks @ kmlFooter))"

text \<open>
  \<^verbatim>\<open>downloadKMZ\<close>. \<open>zipError\<close> is the outcome of \<^verbatim>\<open>zip.generateAsync\<close>; the archive
  is the list of its entries, name and content.
\<close>

definition kmzFailed :: "dashboard \<Rightarrow> dashboard \<times> effect list" where
  "kmzFailed st =
     (st\<lparr>isDownloading := False\<rparr>,
      [ConsoleError, Alert ''Error creating KMZ file. Please try again.''])"

definition downloadKMZ :: "env \<Rightarrow> js_error option \<Rightarrow> dashboard \<Rightarrow> dashboard \<times> effect list" where
  "downloadKMZ E zipError st =
     (if filteredEarthquakes st = [] then (st, [Alert noEarthquakes])
      else
        (case generateKML E (filteredEarthquakes st) of
           Inl e \<Rightarrow> kmzFailed st
         | Inr kmlContent \<Rightarrow>
             (case zipError of
                Some e \<Rightarrow> kmzFailed st
              | None \<Rightarrow>
                  (st\<lparr>isDownloading := False\<rparr>,
                   [Download (exportName st ''.kmz'') (ZipBlob [(''doc.kml'', kmlContent)])]))))"

section \<open>Reading a KML document\<close>

text \<open>
  A reader for the part of XML that the templates use: a declaration, start and end
  tags, character data and CDATA sections. Attributes are not analysed and the name of
  an element ends at the first white space. In character data \<^verbatim>\<open><\<close> opens a tag and
  \<^verbatim>\<open>&\<close> is an error (references are not modelled); a CDATA section ends at the first
  \<^verbatim>\<open>]]>\<close>. Comments, empty-element tags and tags that do not nest are errors.
\<close>

datatype xml = Element string "xml list" | Text string | CDataSection






definition blank :: "xml \<Rightarrow> bool" where
  "blank x = (case x of Text s \<Rightarrow> list_all isWhiteSpace s | _ \<Rightarrow> False)"














section \<open>Observations\<close>

text \<open>
  A feature is admitted when it passes the test of \<^verbatim>\<open>validFeatures\<close>; the store
  \<^verbatim>\<open>earthquakes\<close> only ever holds admitted features.
\<close>

definition admitted :: "feature \<Rightarrow> bool" where
  "admitted f = (validFeature (Some f) = Inr True)"

text \<open>
  The test of the \<^verbatim>\<open>newEarthquakes\<close> filter on a feature that has properties: not
  seen in the previous cycle, not announced, and later than one hour before \<open>now\<close>.
\<close>

definition fresh :: "dashboard \<Rightarrow> int \<Rightarrow> feature \<Rightarrow> bool" where
  "fresh st now f =
     (feature_id f \<notin> previousEarthquakeIds st \<and> feature_id f \<notin> announcedEarthquakeIds st
      \<and> (case timeOf f of None \<Rightarrow> False | Some t \<Rightarrow> now - 3600000 < t))"

section \<open>Sample data\<close>

text \<open>
  A host whose renderers are tabulated on the values of the sample features below
  (magnitude 5, coordinates 39, 9, 10, the instant 1700000000000).
\<close>

definition sampleEnv :: env where
  "sampleEnv =
     \<lparr>toFixed = (\<lambda>x d.
         case map_of [((5, 1), ''5.0''), ((5, 2), ''5.00''), ((39, 6), ''39.000000''),
                      ((9, 6), ''9.000000''), ((10, 1), ''10.0''), ((10, 2), ''10.00'')] (x, d) of
           Some s \<Rightarrow> s
         | None \<Rightarrow> ''0''),
      numberToString = (\<lambda>x. if x = 39 then ''39'' else if x = 9 then ''9'' else ''0''),
      dateParse = (\<lambda>s. if s = ''2023-11-14T22:13:20.000Z'' then Some 1700000000000 else None),
      localeFormat = (\<lambda>t. if t = 1700000000000 then ''11/14/2023, 10:13:20 PM''
                           else ''1/1/1970, 12:00:00 AM''),
      isoFormat = (\<lambda>t. if t = 1700000000000 then ''2023-11-14T22:13:20.000Z''
                        else ''1970-01-01T00:00:00.000Z''),
      audioAvailable = True,
      speechAvailable = True\<rparr>"

text \<open>A feature in the region with the given id, place and origin time.\<close>

definition quake :: "string \<Rightarrow> string \<Rightarrow> int \<Rightarrow> feature" where
  "quake i placeName t =
     \<lparr>feature_id = i,
      geometry = Some \<lparr>coordinates = Some [Some 39, Some 9, Some 10]\<rparr>,
      properties = Some \<lparr>mag = Some 5, place = placeName, time = Some t,
                         url = ''https://earthquake.usgs.gov/x''\<rparr>\<rparr>"

text \<open>The state of the component before its first cycle, with no date range set.\<close>

definition idle :: dashboard where
  "idle =
     \<lparr>earthquakes = [], filteredEarthquakes = [], startDate = [], endDate = [], minMag = 0,
      recentCount = 0, isLoading = False, lastUpdated = 0,
      previousEarthquakeIds = {}, announcedEarthquakeIds = {}, isDownloading = False\<rparr>"

text \<open>
  Three ids seen in the previous cycle and a fetch of A, B and D, of which only D is
  less than an hour old at the instant 1700000060000; and the state after that cycle.
\<close>

definition seenABC :: dashboard where
  "seenABC = idle\<lparr>previousEarthquakeIds := {''A'', ''B'', ''C''}\<rparr>"

definition fetchABD :: "feature list" where
  "fetchABD =
     [quake ''A'' ''Afar, Ethiopia'' 1600000000000,
      quake ''B'' ''Afar, Ethiopia'' 1600000000000,
      quake ''D'' ''Afar, Ethiopia'' 1700000000000]"

definition announcedD :: dashboard where
  "announcedD =
     reached (fetchEarthquakes sampleEnv 1700000060000
                (Response True (Json (Some (map Some fetchABD)))) seenABC)"

text \<open>
  Two responses, of D alone and of D with a later E, and the state in which a call made
  in the initial state ends when its response, D alone, arrives at 1700003540000.
\<close>

definition fetchD :: outcome where
  "fetchD = Response True (Json (Some [Some (quake ''D'' ''Afar, Ethiopia'' 1700000000000)]))"

definition fetchDE :: outcome where
  "fetchDE =
     Response True
       (Json (Some [Some (quake ''D'' ''Afar, Ethiopia'' 1700000000000),
                    Some (quake ''E'' ''Afar, Ethiopia'' 1700003600000)]))"

definition firstDone :: dashboard where
  "firstDone = reached (fetchEarthquakesFrom sampleEnv 1700003540000 fetchD idle idle)"

text \<open>A store with a feature of unknown magnitude and a start date, and its filtered state.\<close>

definition nullMagnitude :: feature where
  "nullMagnitude =
     \<lparr>feature_id = ''N'',
      geometry = Some \<lparr>coordinates = Some [Some 39, Some 9, Some 10]\<rparr>,
      properties = Some \<lparr>mag = None, place = ''Afar, Ethiopia'', time = Some 1700000000000,
                         url = []\<rparr>\<rparr>"

definition stored :: dashboard where
  "stored =
     idle\<lparr>earthquakes := [quake ''A'' ''Afar, Ethiopia'' 1600000000000, nullMagnitude,
                           quake ''D'' ''Afar, Ethiopia'' 1700000000000],
          startDate := ''2023-11-14T22:13:20.000Z''\<rparr>"

definition filteredD :: dashboard where
  "filteredD = applyFilters sampleEnv stored"

text \<open>A feature whose place holds a line feed, alone in the store and filtered.\<close>

definition twoLinePlace :: feature where
  "twoLinePlace = quake ''L'' ''Afar\<newline>Ethiopia'' 1700000000000"

definition brokenLine :: dashboard where
  "brokenLine = applyFilters sampleEnv (idle\<lparr>earthquakes := [twoLinePlace]\<rparr>)"



section \<open>Properties of the model\<close>

subsection \<open>Strings and the classifier\<close>

lemma includes_js_sublist: "includes_js s sub \<longleftrightarrow> sublist sub s"
  by (induction s) (simp_all add: sublist_Cons_right)



lemma substringAfterFirst_suffix: "suffix (substringAfterFirst sep s) s"
proof (induction s)
  case Nil
  show ?case by simp
next
  case (Cons c cs)
  show ?case
  proof (cases "prefix sep (c # cs)")
    case True
    then show ?thesis by (simp only: substringAfterFirst.simps if_True suffix_drop)
  next
    case False
    with Cons show ?thesis by (simp add: suffix_Cons)
  qed
qed

lemma split_from_nonempty: "split_from sep acc s \<noteq> []"
  by (induction sep acc s rule: split_from.induct) (subst split_from.simps, simp)

lemma split_from_two:
  "sep \<noteq> [] \<Longrightarrow> sublist sep s \<Longrightarrow> 2 \<le> length (split_from sep acc s)"
proof (induction sep acc s rule: split_from.induct)
  case (1 sep acc s)
  show ?case
  proof (cases "prefix sep s")
    case True
    have "split_from sep [] (drop (length sep) s) \<noteq> []" by (rule split_from_nonempty)
    then have "1 \<le> length (split_from sep [] (drop (length sep) s))"
      by (cases "split_from sep [] (drop (length sep) s)") simp_all
    moreover from "1.prems" True have "s \<noteq> []" by auto
    ultimately show ?thesis using True "1.prems"(1)
      by (subst split_from.simps) simp
  next
    case False
    from "1.prems" have ne: "s \<noteq> []" by auto
    then obtain c cs where s: "s = c # cs" by (cases s) auto
    with "1.prems"(2) False have "sublist sep (tl s)" by (simp add: sublist_Cons_right)
    with "1.IH"(2) ne False "1.prems"(1)
    have "2 \<le> length (split_from sep (hd s # acc) (tl s))" by simp
    with ne False show ?thesis by (subst split_from.simps) simp
  qed
qed

lemma split_from_pieces:
  "x \<in> set (split_from sep acc s) \<Longrightarrow> sublist x (rev acc @ s)"
proof (induction sep acc s rule: split_from.induct)
  case (1 sep acc s)
  show ?case
  proof (cases "s = []")
    case True
    with "1.prems" show ?thesis by (subst (asm) split_from.simps) simp
  next
    case ne: False
    show ?thesis
    proof (cases "sep \<noteq> [] \<and> prefix sep s")
      case True
      with ne "1.prems"
      have "x = rev acc \<or> x \<in> set (split_from sep [] (drop (length sep) s))"
        by (subst (asm) split_from.simps) auto
      then show ?thesis
      proof
        assume "x = rev acc"
        then show ?thesis by simp
      next
        assume "x \<in> set (split_from sep [] (drop (length sep) s))"
        with "1.IH"(1) ne True have "sublist x (drop (length sep) s)" by simp
        then have "sublist x s"
          by (rule sublist_order.order_trans) (rule sublist_drop)
        then show ?thesis
          by (rule sublist_order.order_trans) (rule suffix_imp_sublist, simp add: suffix_def)
      qed
    next
      case False
      with ne "1.prems" have "x \<in> set (split_from sep (hd s # acc) (tl s))"
        by (subst (asm) split_from.simps) auto
      with "1.IH"(2) ne False have "sublist x (rev (hd s # acc) @ tl s)" by simp
      with ne show ?thesis by simp
    qed
  qed
qed

lemma afterOf_defined:
  assumes "includes_js s ''of ''"
  obtains piece where "index_js (split_js s ''of '') 1 = Some piece" and "sublist piece s"
proof -
  from assms have "2 \<le> length (split_from ''of '' [] s)"
    by (intro split_from_two) (simp_all add: includes_js_sublist)
  then have len: "1 < length (split_js s ''of '')" by (simp add: split_js_def)
  then have "split_js s ''of '' ! 1 \<in> set (split_js s ''of '')" by (rule nth_mem)
  then have "sublist (split_js s ''of '' ! 1) s"
    using split_from_pieces [of _ "''of ''" "[]" s] by (simp add: split_js_def)
  with len that show thesis by (simp add: index_js_def)
qed

text \<open>
  The classifier is total: the read of \<^verbatim>\<open>split('of ')[1]\<close> is guarded by
  \<^verbatim>\<open>includes('of ')\<close>, so the TypeError branch is never taken.
\<close>

lemma isEthiopiaLocation_total: "\<exists>b. isEthiopiaLocation placeName = Inr b"
proof (cases "includes_js (toLowerCase placeName) ''of ''")
  case True
  then obtain piece where "index_js (split_js (toLowerCase placeName) ''of '') 1 = Some piece"
    by (rule afterOf_defined)
  then show ?thesis by (auto simp: isEthiopiaLocation_def Let_def)
next
  case False
  then show ?thesis by (auto simp: isEthiopiaLocation_def Let_def)
qed






lemmas classifier_eval =
  isEthiopiaLocation_def excludedPass_def keywordPass_def excludeCountries_def
  ethiopiaKeywords_def toLowerCase_def toLowerChar_def split_js_def index_js_def
  split_from.simps Let_def

subsection \<open>The fetch cycle\<close>

lemma filter_r_total:
  assumes "\<And>x. x \<in> set xs \<Longrightarrow> \<exists>b. p x = Inr b"
  shows "filter_r p xs = Inr (filter (\<lambda>x. p x = Inr True) xs)"
  using assms
proof (induction xs)
  case Nil
  show ?case by simp
next
  case (Cons x xs)
  from Cons.prems obtain b where b: "p x = Inr b" by auto
  from Cons have "filter_r p xs = Inr (filter (\<lambda>x. p x = Inr True) xs)" by simp
  with b show ?case by simp
qed

lemma validFeature_total: "\<exists>b. validFeature f = Inr b"
  using isEthiopiaLocation_total
  by (auto simp: validFeature_def split: option.splits)

lemma validFeatures_eq:
  "validFeatures features = Inr [f. Some f \<leftarrow> filter (\<lambda>x. validFeature x = Inr True) features]"
  by (simp add: validFeatures_def filter_r_total validFeature_total)

lemma validFeatures_admitted:
  assumes "validFeatures features = Inr valid"
  shows "list_all admitted valid"
proof -
  from assms
  have "valid = [f. Some f \<leftarrow> filter (\<lambda>x. validFeature x = Inr True) features]"
    by (simp add: validFeatures_eq)
  then show ?thesis
    by (auto simp: list_all_iff admitted_def split: option.splits)
qed

lemma admitted_properties:
  assumes "admitted f"
  obtains p g cs t where "properties f = Some p" and "geometry f = Some g"
    and "coordinates g = Some cs" and "length cs = 3" and "time p = Some t" and "t \<noteq> 0"
    and "feature_id f \<noteq> []" and "place p \<noteq> []"
  using assms
  by (auto simp: admitted_def validFeature_def truthyTime_def isEthiopiaLocation_def
           split: option.splits if_splits)

lemma isNew_admitted:
  assumes "admitted f"
  shows "isNew st (now - 3600000) f = Inr (fresh st now f)"
proof -
  from assms obtain p where "properties f = Some p" by (rule admitted_properties)
  then show ?thesis by (simp add: isNew_def fresh_def timeOf_def)
qed

lemma newEarthquakes_admitted:
  assumes "list_all admitted valid"
  shows "newEarthquakes st now valid = Inr (filter (fresh st now) valid)"
proof -
  have "filter_r (isNew st (now - 3600000)) valid
          = Inr (filter (\<lambda>f. isNew st (now - 3600000) f = Inr True) valid)"
    using assms by (intro filter_r_total) (auto simp: list_all_iff isNew_admitted)
  moreover have "filter (\<lambda>f. isNew st (now - 3600000) f = Inr True) valid
                   = filter (fresh st now) valid"
    using assms by (intro filter_cong) (auto simp: list_all_iff isNew_admitted)
  ultimately show ?thesis by (simp add: newEarthquakes_def)
qed

lemma locationName_total: "\<exists>name. locationName p = Inr name"
proof -
  obtain a where a: "afterOf p = Inr a"
  proof (cases "includes_js p ''of ''")
    case True
    then obtain x where "index_js (split_js p ''of '') 1 = Some x" by (rule afterOf_defined)
    with True that show thesis by (auto simp: afterOf_def)
  next
    case False
    with that show thesis by (simp add: afterOf_def)
  qed
  have "split_js a '','' \<noteq> []" by (simp add: split_js_def split_from_nonempty)
  then have "\<exists>x. index_js (split_js a '','') 0 = Some x" by (simp add: index_js_def)
  then have "\<exists>name. beforeComma a = Inr name" by (auto simp: beforeComma_def)
  with a show ?thesis by (simp add: locationName_def)
qed

lemma voiceAlerts_no_raise: "snd (voiceAlerts E new) = None"
proof (induction new)
  case Nil
  show ?case by simp
next
  case (Cons eq eqs)
  obtain name where "locationName (orElse (placeOf eq) ''Unknown location'') = Inr name"
    using locationName_total by blast
  then obtain spoken where "voiceAlert E eq = Inr spoken" by (simp add: voiceAlert_def Let_def)
  with Cons show ?case by simp
qed

lemma announce_result:
  "raised (announce E st new) = None
   \<and> novel (announce E st new) = new
   \<and> reached (announce E st new) =
       st\<lparr>announcedEarthquakeIds := announcedEarthquakeIds st \<union> set (map feature_id new)\<rparr>"
proof -
  obtain name where "locationName (orElse (placeOf (last new)) ''Unknown location'') = Inr name"
    using locationName_total by blast
  then obtain msg where "alertText E (last new) = Inr msg" by (simp add: alertText_def)
  then show ?thesis by (simp add: announce_def Let_def voiceAlerts_no_raise)
qed

text \<open>What a cycle that receives a feature array does to the state.\<close>

lemma fetch_features:
  fixes E now ok st features
  defines "a \<equiv> fetchEarthquakes E now (Response ok (Json (Some features))) st"
  assumes "validFeatures features = Inr valid"
  shows "novel a = filter (fresh st now) valid"
    and "announcedEarthquakeIds (reached a) =
           announcedEarthquakeIds st \<union> set (map feature_id (filter (fresh st now) valid))"
    and "previousEarthquakeIds (reached a) = set (map feature_id valid)"
    and "earthquakes (reached a) = valid"
    and "filteredEarthquakes (reached a) = filteredEarthquakes st"
proof -
  let ?new = "filter (fresh st now) valid"
  have new: "newEarthquakes (st\<lparr>isLoading := True\<rparr>) now valid = Inr ?new"
    using validFeatures_admitted [OF assms(2)]
    by (simp add: newEarthquakes_admitted fresh_def [abs_def])
  have empty: "?new = [] \<Longrightarrow> set (map feature_id ?new) = {}" by simp
  show "novel a = ?new"
    unfolding a_def fetchEarthquakes_def fetchTry_def
    by (simp add: assms(2) new announce_result Let_def)
  show "announcedEarthquakeIds (reached a) = announcedEarthquakeIds st \<union> set (map feature_id ?new)"
  proof (cases "?new = []")
    case True
    with empty show ?thesis
      unfolding a_def fetchEarthquakes_def fetchTry_def
      by (simp add: assms(2) new Let_def)
  next
    case False
    then show ?thesis
      unfolding a_def fetchEarthquakes_def fetchTry_def
      by (simp add: assms(2) new announce_result Let_def)
  qed
  show "previousEarthquakeIds (reached a) = set (map feature_id valid)"
    unfolding a_def fetchEarthquakes_def fetchTry_def
    by (simp add: assms(2) new announce_result Let_def)
  show "earthquakes (reached a) = valid"
    unfolding a_def fetchEarthquakes_def fetchTry_def
    by (simp add: assms(2) new announce_result Let_def)
  show "filteredEarthquakes (reached a) = filteredEarthquakes st"
    unfolding a_def fetchEarthquakes_def fetchTry_def
    by (simp add: assms(2) new announce_result Let_def)
qed

lemma fetch_failure:
  assumes "out = Rejected \<or> out = Response ok NotJson \<or> out = Response ok (Json None)"
  shows "reached (fetchEarthquakes E now out st) = st\<lparr>isLoading := False\<rparr>"
    and "novel (fetchEarthquakes E now out st) = []"
  using assms by (auto simp: fetchEarthquakes_def fetchTry_def)

lemma fetch_announced_mono:
  "announcedEarthquakeIds st
     \<subseteq> announcedEarthquakeIds (reached (fetchEarthquakes E now out st))"
proof (cases out)
  case Rejected
  then show ?thesis by (simp add: fetch_failure)
next
  case (Response ok b)
  show ?thesis
  proof (cases b)
    case NotJson
    with Response show ?thesis by (simp add: fetch_failure)
  next
    case (Json fo)
    show ?thesis
    proof (cases fo)
      case None
      with Response Json show ?thesis by (simp add: fetch_failure)
    next
      case (Some features)
      show ?thesis
        unfolding Response Json Some
        by (subst fetch_features(2) [OF validFeatures_eq]) blast
    qed
  qed
qed

lemma fetch_novel_unannounced:
  assumes "f \<in> set (novel (fetchEarthquakes E now out st))"
  shows "feature_id f \<notin> announcedEarthquakeIds st"
proof (cases "\<exists>ok features. out = Response ok (Json (Some features))")
  case True
  then obtain ok features where out: "out = Response ok (Json (Some features))" by blast
  from assms show ?thesis
    unfolding out by (subst (asm) fetch_features(1) [OF validFeatures_eq]) (simp add: fresh_def)
next
  case False
  then have "out = Rejected \<or> (\<exists>ok. out = Response ok NotJson \<or> out = Response ok (Json None))"
  proof (cases out)
    case Rejected
    then show ?thesis by simp
  next
    case (Response ok b)
    with False show ?thesis by (cases b; cases "case b of Json fo \<Rightarrow> fo | _ \<Rightarrow> None") auto
  qed
  then have "novel (fetchEarthquakes E now out st) = []"
    by (auto simp: fetch_failure)
  with assms show ?thesis by simp
qed

lemma cycles_announced_mono:
  "announcedEarthquakeIds st \<subseteq> announcedEarthquakeIds (cycles E cs st)"
proof (induction cs arbitrary: st)
  case Nil
  show ?case by simp
next
  case (Cons c cs)
  obtain now out where c: "c = (now, out)" by (cases c)
  have "announcedEarthquakeIds st
          \<subseteq> announcedEarthquakeIds (reached (fetchEarthquakes E now out st))"
    by (rule fetch_announced_mono)
  also have "\<dots> \<subseteq> announcedEarthquakeIds (cycles E cs (reached (fetchEarthquakes E now out st)))"
    by (rule Cons.IH)
  finally show ?case by (simp add: c)
qed

text \<open>
  Calls that run one after another keep what was announced: the announced set only
  grows, and no feature whose id is in it is found new again.
\<close>

lemma sequential_announced_monotone:
  "announcedEarthquakeIds st
     \<subseteq> announcedEarthquakeIds (reached (fetchEarthquakes E now out st))
   \<and> announcedEarthquakeIds st \<subseteq> announcedEarthquakeIds (cycles E cs st)
   \<and> (\<forall>f\<in>set (novel (fetchEarthquakes E now out (cycles E cs st))).
         feature_id f \<notin> announcedEarthquakeIds st)"
proof -
  have "feature_id f \<notin> announcedEarthquakeIds st"
    if "f \<in> set (novel (fetchEarthquakes E now out (cycles E cs st)))" for f
  proof -
    from that have "feature_id f \<notin> announcedEarthquakeIds (cycles E cs st)"
      by (rule fetch_novel_unannounced)
    with cycles_announced_mono [of st E cs] show ?thesis by blast
  qed
  with fetch_announced_mono [of st E now out] cycles_announced_mono [of st E cs]
  show ?thesis by blast
qed

text \<open>
  A call made while another is outstanding unions with the announced set of its
  snapshot, not with that of the state it writes to.
\<close>

lemma announceFrom_eq:
  "announceFrom E snap st new =
     (announce E st new)
       \<lparr>reached := st\<lparr>announcedEarthquakeIds :=
                           announcedEarthquakeIds snap \<union> set (map feature_id new)\<rparr>\<rparr>"
  by (simp add: announceFrom_def announce_def Let_def split: option.splits sum.splits)

lemma announceFrom_same:
  assumes "announcedEarthquakeIds snap = announcedEarthquakeIds st"
  shows "announceFrom E snap st new = announce E st new"
  unfolding announceFrom_eq using assms
  by (simp add: announce_def Let_def split: option.splits sum.splits)

lemma newEarthquakes_sets:
  assumes "previousEarthquakeIds snap = previousEarthquakeIds st"
    and "announcedEarthquakeIds snap = announcedEarthquakeIds st"
  shows "newEarthquakes snap now valid = newEarthquakes st now valid"
  using assms by (simp add: newEarthquakes_def isNew_def [abs_def] cong: if_cong)

text \<open>
  A call whose snapshot holds the id sets of the state in which it ends is the call of
  \<open>fetchEarthquakes\<close>.
\<close>

lemma fetchEarthquakesFrom_same:
  assumes "previousEarthquakeIds snap = previousEarthquakeIds st"
    and "announcedEarthquakeIds snap = announcedEarthquakeIds st"
  shows "fetchEarthquakesFrom E now out snap st = fetchEarthquakes E now out st"
proof -
  have n: "newEarthquakes snap now valid = newEarthquakes (st\<lparr>isLoading := True\<rparr>) now valid"
    for valid
    using assms by (intro newEarthquakes_sets) simp_all
  have a: "announceFrom E snap (st\<lparr>isLoading := True\<rparr>) new
             = announce E (st\<lparr>isLoading := True\<rparr>) new" for new
    using assms by (intro announceFrom_same) simp
  have "fetchTryFrom E now out snap (st\<lparr>isLoading := True\<rparr>)
          = fetchTry E now out (st\<lparr>isLoading := True\<rparr>)"
  proof (cases out)
    case Rejected
    then show ?thesis by (simp add: fetchTryFrom_def fetchTry_def)
  next
    case (Response ok b)
    show ?thesis
    proof (cases b)
      case NotJson
      with Response show ?thesis by (simp add: fetchTryFrom_def fetchTry_def)
    next
      case (Json fo)
      show ?thesis
      proof (cases fo)
        case None
        with Response Json show ?thesis by (simp add: fetchTryFrom_def fetchTry_def)
      next
        case (Some features)
        obtain valid where v: "validFeatures features = Inr valid"
          by (simp add: validFeatures_eq)
        show ?thesis
          unfolding Response Json Some
          by (cases "newEarthquakes (st\<lparr>isLoading := True\<rparr>) now valid")
             (simp_all add: fetchTryFrom_def fetchTry_def v n a)
      qed
    qed
  qed
  then show ?thesis by (simp add: fetchEarthquakesFrom_def fetchEarthquakes_def)
qed

lemma fetch_from_features:
  fixes E now ok snap st features
  defines "a \<equiv> fetchEarthquakesFrom E now (Response ok (Json (Some features))) snap st"
  assumes "validFeatures features = Inr valid"
  shows "novel a = filter (fresh snap now) valid"
    and "announcedEarthquakeIds (reached a) =
           (if filter (fresh snap now) valid = [] then announcedEarthquakeIds st
            else announcedEarthquakeIds snap \<union> set (map feature_id (filter (fresh snap now) valid)))"
    and "previousEarthquakeIds (reached a) = set (map feature_id valid)"
proof -
  let ?new = "filter (fresh snap now) valid"
  have new: "newEarthquakes snap now valid = Inr ?new"
    using validFeatures_admitted [OF assms(2)] by (simp add: newEarthquakes_admitted)
  show "novel a = ?new"
    unfolding a_def fetchEarthquakesFrom_def fetchTryFrom_def
    by (simp add: assms(2) new announceFrom_def announce_result Let_def)
  show "announcedEarthquakeIds (reached a) =
           (if ?new = [] then announcedEarthquakeIds st
            else announcedEarthquakeIds snap \<union> set (map feature_id ?new))"
    unfolding a_def fetchEarthquakesFrom_def fetchTryFrom_def
    by (simp add: assms(2) new announceFrom_def announce_result Let_def)
  show "previousEarthquakeIds (reached a) = set (map feature_id valid)"
    unfolding a_def fetchEarthquakesFrom_def fetchTryFrom_def
    by (simp add: assms(2) new announceFrom_def announce_result Let_def)
qed

text \<open>The store holds admitted features only, and so does the filtered list.\<close>

lemma fetch_store_admitted:
  assumes "list_all admitted (earthquakes st)"
  shows "list_all admitted (earthquakes (reached (fetchEarthquakes E now out st)))"
proof (cases "\<exists>ok features. out = Response ok (Json (Some features))")
  case True
  then obtain ok features where out: "out = Response ok (Json (Some features))" by blast
  obtain valid where v: "validFeatures features = Inr valid"
    by (simp add: validFeatures_eq)
  then show ?thesis
    unfolding out by (simp add: fetch_features(4) [OF v] validFeatures_admitted)
next
  case False
  have "out = Rejected \<or> (\<exists>ok. out = Response ok NotJson \<or> out = Response ok (Json None))"
  proof (cases out)
    case Rejected
    then show ?thesis by simp
  next
    case (Response ok b)
    with False show ?thesis by (cases b; cases "case b of Json fo \<Rightarrow> fo | _ \<Rightarrow> None") auto
  qed
  then have "reached (fetchEarthquakes E now out st) = st\<lparr>isLoading := False\<rparr>"
    by (auto simp: fetch_failure)
  with assms show ?thesis by simp
qed

subsection \<open>The sample data\<close>

lemma afar_in_region: "isEthiopiaLocation ''Afar, Ethiopia'' = Inr True"
  by (simp add: classifier_eval)

lemma admitted_quake:
  "i \<noteq> [] \<Longrightarrow> t \<noteq> 0 \<Longrightarrow> isEthiopiaLocation p = Inr True \<Longrightarrow> admitted (quake i p t)"
  by (simp add: admitted_def validFeature_def quake_def truthyTime_def)

lemma validFeatures_admitted_list:
  "list_all admitted fs \<Longrightarrow> validFeatures (map Some fs) = Inr fs"
  by (induction fs) (simp_all add: validFeatures_eq admitted_def)

lemma fetchABD_valid: "validFeatures (map Some fetchABD) = Inr fetchABD"
  by (rule validFeatures_admitted_list)
     (simp add: fetchABD_def admitted_quake afar_in_region)

lemma fetchD_valid:
  "validFeatures [Some (quake ''D'' ''Afar, Ethiopia'' 1700000000000)]
     = Inr [quake ''D'' ''Afar, Ethiopia'' 1700000000000]"
  using validFeatures_admitted_list [of "[quake ''D'' ''Afar, Ethiopia'' 1700000000000]"]
  by (simp add: admitted_quake afar_in_region)

lemma fetchDE_valid:
  "validFeatures [Some (quake ''D'' ''Afar, Ethiopia'' 1700000000000),
                  Some (quake ''E'' ''Afar, Ethiopia'' 1700003600000)]
     = Inr [quake ''D'' ''Afar, Ethiopia'' 1700000000000,
            quake ''E'' ''Afar, Ethiopia'' 1700003600000]"
  using validFeatures_admitted_list
          [of "[quake ''D'' ''Afar, Ethiopia'' 1700000000000,
                quake ''E'' ''Afar, Ethiopia'' 1700003600000]"]
  by (simp add: admitted_quake afar_in_region)

lemmas overlap_eval = fresh_def idle_def quake_def timeOf_def

lemma announcedD_ids:
  "announcedEarthquakeIds announcedD = {''D''}
   \<and> previousEarthquakeIds announcedD = {''A'', ''B'', ''D''}"
proof -
  have f: "filter (fresh seenABC 1700000060000) fetchABD
             = [quake ''D'' ''Afar, Ethiopia'' 1700000000000]"
    by (simp add: fresh_def fetchABD_def quake_def seenABC_def idle_def timeOf_def)
  show ?thesis
    unfolding announcedD_def
    by (simp add: fetch_features(2,3) [OF fetchABD_valid] f)
       (simp add: fetchABD_def quake_def seenABC_def idle_def)
qed

subsection \<open>The filter\<close>

lemma keeps_admitted:
  assumes "admitted r"
  shows "keeps E st r = included E st r"
proof -
  from assms obtain p g t
    where "properties r = Some p" and "geometry r = Some g" and "time p = Some t" and "t \<noteq> 0"
    by (rule admitted_properties)
  then show ?thesis
    by (simp add: keeps_def included_def eqTime_def timeOf_def magOf_def Let_def
             split: option.splits)
qed

lemma keeps_magnitude: "keeps E st r \<Longrightarrow> \<exists>m. magOf r = Some m"
  by (auto simp: keeps_def magOf_def split: option.splits)

lemma filtered_admitted:
  assumes "list_all admitted (earthquakes st)"
  shows "list_all admitted (filteredEarthquakes (applyFilters E st))"
  using assms by (auto simp: applyFilters_def list_all_iff)

subsection \<open>The exports\<close>

lemma map_r_Inr: "map_r f xs = Inr ys \<longleftrightarrow> list_all2 (\<lambda>x y. f x = Inr y) xs ys"
proof (induction xs arbitrary: ys)
  case Nil
  show ?case by auto
next
  case (Cons x xs)
  have IH: "list_all2 (\<lambda>x y. f x = Inr y) xs zs \<longleftrightarrow> map_r f xs = Inr zs" for zs
    by (simp add: Cons.IH)
  show ?case
  proof (cases "f x")
    case (Inl e)
    then show ?thesis by (auto simp: list_all2_Cons1)
  next
    case y: (Inr y)
    show ?thesis
    proof (cases "map_r f xs")
      case (Inl e)
      with y show ?thesis by (auto simp: list_all2_Cons1 IH)
    next
      case (Inr rs)
      with y show ?thesis by (auto simp: list_all2_Cons1 IH)
    qed
  qed
qed

lemma split_from_char_none:
  "c \<notin> set s \<Longrightarrow> split_from [c] acc s = [rev acc @ s]"
proof (induction s arbitrary: acc)
  case Nil
  show ?case by (subst split_from.simps) simp
next
  case (Cons x xs)
  then show ?case by (subst split_from.simps) auto
qed

lemma split_from_char_cut:
  "c \<notin> set x \<Longrightarrow> split_from [c] acc (x @ c # rest) = (rev acc @ x) # split_from [c] [] rest"
proof (induction x arbitrary: acc)
  case Nil
  show ?case by (subst split_from.simps) simp
next
  case (Cons y ys)
  then show ?case by (subst split_from.simps) auto
qed

lemma lines_of_join:
  assumes "ls \<noteq> []" and "list_all (\<lambda>l. CHR 0x0A \<notin> set l) ls"
  shows "lines_of (join_js [CHR 0x0A] ls) = ls"
  using assms
proof (induction "[CHR 0x0A]" ls rule: join_js.induct)
  case 1
  then show ?case by simp
next
  case (2 x)
  then show ?case by (simp add: lines_of_def split_js_def split_from_char_none)
next
  case (3 x y zs)
  then have "lines_of (join_js [CHR 0x0A] (y # zs)) = y # zs" by simp
  with 3 show ?case by (simp add: lines_of_def split_js_def split_from_char_cut)
qed

lemma header_one_line: "CHR 0x0A \<notin> set (join_js '','' headers)"
  by (simp add: headers_def)

lemma csvRow_place:
  assumes "csvRow E eq = Inr row"
  shows "prefix (feature_id eq @ '','' @ escapedPlace eq @ '','') row"
  using assms
  by (auto simp: csvRow_def Let_def split: option.splits sum.splits)

lemma csvRow_admitted:
  assumes "admitted eq"
  shows "\<exists>row. csvRow E eq = Inr row"
proof -
  from assms obtain g cs
    where "geometry eq = Some g" and "coordinates g = Some cs" and "length cs = 3"
    by (rule admitted_properties)
  then show ?thesis
    by (auto simp: csvRow_def Let_def fixedOrEmpty_def element_def index_js_def
             split: option.splits js_number.splits sum.splits)
qed

lemma csvRows_admitted:
  assumes "list_all admitted (filteredEarthquakes st)"
  shows "\<exists>rows. csvRows E st = Inr rows"
proof -
  have "\<exists>rows. map_r (csvRow E) eqs = Inr rows" if "list_all admitted eqs" for eqs
    using that
  proof (induction eqs)
    case Nil
    show ?case by simp
  next
    case (Cons eq eqs)
    then obtain row rows where "csvRow E eq = Inr row" and "map_r (csvRow E) eqs = Inr rows"
      using csvRow_admitted [of eq E] by auto
    then show ?case by simp
  qed
  with assms show ?thesis by (simp add: csvRows_def)
qed


lemma placemarkValuesOf_admitted:
  assumes "admitted eq" and "timeOf eq = Some t" and "\<bar>t\<bar> \<le> 8640000000000000"
  shows "\<exists>v. placemarkValuesOf E eq = Inr v"
proof -
  from assms(1) obtain g cs where "geometry eq = Some g" and "coordinates g = Some cs"
    by (rule admitted_properties)
  with assms(2,3) show ?thesis
    by (simp add: placemarkValuesOf_def toISOString_def newDate_def)
qed

subsection \<open>Reading the generated document\<close>













subsection \<open>Evaluation of the exports on the sample data\<close>

lemmas export_eval =
  csvRows_def csvRow_def csvText_def csvLines_def lines_of_def split_js_def split_from.simps
  escapedPlace_def headers_def fixedOrEmpty_def element_def index_js_def orElse_def
  placeOf_def urlOf_def magOf_def timeOf_def toLocaleString_def newDate_def exportName_def
  quake_def sampleEnv_def Let_def

lemmas filter_eval =
  applyFilters_def keeps_def eqTime_def date_ge_def date_le_def newDate_def idle_def
  quake_def sampleEnv_def Let_def

lemma brokenLine_filtered: "filteredEarthquakes brokenLine = [twoLinePlace]"
  by (simp add: brokenLine_def twoLinePlace_def filter_eval)

lemma filteredD_filtered:
  "filteredEarthquakes filteredD = [quake ''D'' ''Afar, Ethiopia'' 1700000000000]"
  by (simp add: filteredD_def stored_def nullMagnitude_def filter_eval)

section \<open>The claims\<close>

text \<open>
  Claim C1. Starting with \<open>previousEarthquakeIds = {A, B, C}\<close> and nothing announced
  (A, B, C, D distinct), a cycle whose valid features have the ids \<open>{A, B, D}\<close>, where
  the origin time of D is later than one hour before the current instant (whatever the
  origin times of A and B), finds as new exactly the features with id D; afterwards D is
  announced and \<open>previousEarthquakeIds = {A, B, D}\<close>; a further cycle with the same
  features finds nothing new.
\<close>

theorem C1_novelty_transition:
  fixes A B C D :: string
  assumes seen: "previousEarthquakeIds st = {A, B, C}"
    and ann: "announcedEarthquakeIds st = {}"
    and dist: "distinct [A, B, C, D]"
    and fetched: "validFeatures features = Inr fetched"
    and ids: "set (map feature_id fetched) = {A, B, D}"
    and within:
      "\<forall>f\<in>set fetched. feature_id f = D \<longrightarrow>
         (case timeOf f of None \<Rightarrow> False | Some t \<Rightarrow> now - 3600000 < t)"
  shows "novel (fetchEarthquakes E now (Response ok (Json (Some features))) st)
           = filter (\<lambda>f. feature_id f = D) fetched
         \<and> set (map feature_id
                (novel (fetchEarthquakes E now (Response ok (Json (Some features))) st))) = {D}
         \<and> D \<in> announcedEarthquakeIds
                (reached (fetchEarthquakes E now (Response ok (Json (Some features))) st))
         \<and> previousEarthquakeIds
             (reached (fetchEarthquakes E now (Response ok (Json (Some features))) st))
             = {A, B, D}
         \<and> novel (fetchEarthquakes E now' (Response ok' (Json (Some features)))
               (reached (fetchEarthquakes E now (Response ok (Json (Some features))) st)))
             = []"
proof -
  let ?a = "fetchEarthquakes E now (Response ok (Json (Some features))) st"
  have fresh: "fresh st now f \<longleftrightarrow> feature_id f = D" if "f \<in> set fetched" for f
  proof -
    from that ids have "feature_id f \<in> {A, B, D}" by auto
    with seen ann dist within that show ?thesis by (auto simp: fresh_def)
  qed
  then have new: "filter (fresh st now) fetched = filter (\<lambda>f. feature_id f = D) fetched"
    by (intro filter_cong) auto
  have n: "novel ?a = filter (\<lambda>f. feature_id f = D) fetched"
    by (simp add: fetch_features(1) [OF fetched] new)
  from ids have "D \<in> feature_id ` set fetched" by auto
  then obtain d where "d \<in> set fetched" and "feature_id d = D" by auto
  then have s: "set (map feature_id (filter (\<lambda>f. feature_id f = D) fetched)) = {D}"
    by force
  have a: "announcedEarthquakeIds (reached ?a) = {D}"
    using s ann by (simp add: fetch_features(2) [OF fetched] new)
  have p: "previousEarthquakeIds (reached ?a) = {A, B, D}"
    using ids by (simp add: fetch_features(3) [OF fetched])
  have "filter (fresh (reached ?a) now') fetched = []"
    using ids by (auto simp: filter_empty_conv fresh_def p)
  then have "novel (fetchEarthquakes E now' (Response ok' (Json (Some features))) (reached ?a)) = []"
    by (simp add: fetch_features(1) [OF fetched])
  with n s a p show ?thesis by simp
qed

theorem C1_novelty_transition_witness:
  "previousEarthquakeIds seenABC = {''A'', ''B'', ''C''}
   \<and> announcedEarthquakeIds seenABC = {}
   \<and> validFeatures (map Some fetchABD) = Inr fetchABD
   \<and> set (map feature_id fetchABD) = {''A'', ''B'', ''D''}
   \<and> novel (fetchEarthquakes sampleEnv 1700000060000
              (Response True (Json (Some (map Some fetchABD)))) seenABC)
       = [quake ''D'' ''Afar, Ethiopia'' 1700000000000]
   \<and> previousEarthquakeIds
       (reached (fetchEarthquakes sampleEnv 1700000060000
                  (Response True (Json (Some (map Some fetchABD)))) seenABC))
       = {''A'', ''B'', ''D''}
   \<and> novel (fetchEarthquakes sampleEnv 1700000360000
              (Response True (Json (Some (map Some fetchABD))))
              (reached (fetchEarthquakes sampleEnv 1700000060000
                         (Response True (Json (Some (map Some fetchABD)))) seenABC)))
       = []"
proof -
  have seen: "previousEarthquakeIds seenABC = {''A'', ''B'', ''C''}"
    by (simp add: seenABC_def idle_def)
  have ann: "announcedEarthquakeIds seenABC = {}"
    by (simp add: seenABC_def idle_def)
  have dist: "distinct [''A'', ''B'', ''C'', ''D'']" by simp
  have ids: "set (map feature_id fetchABD) = {''A'', ''B'', ''D''}"
    by (simp add: fetchABD_def quake_def)
  have within:
    "\<forall>f\<in>set fetchABD. feature_id f = ''D'' \<longrightarrow>
       (case timeOf f of None \<Rightarrow> False | Some t \<Rightarrow> 1700000060000 - 3600000 < t)"
    by (simp add: fetchABD_def quake_def timeOf_def)
  have D: "filter (\<lambda>f. feature_id f = ''D'') fetchABD = [quake ''D'' ''Afar, Ethiopia'' 1700000000000]"
    by (simp add: fetchABD_def quake_def)
  from C1_novelty_transition [OF seen ann dist fetchABD_valid ids within,
      of sampleEnv True 1700000360000 True]
  show ?thesis using seen ann ids D fetchABD_valid by simp
qed

text \<open>
  Claim C2 fails for calls that overlap. The callback reads the two id sets of the
  render that created it, and nothing keeps a second call from starting while the first
  is outstanding: the refresh button calls \<^verbatim>\<open>fetchEarthquakes\<close> unguarded, whereas the
  KMZ button is disabled while \<^verbatim>\<open>isDownloading\<close>. Both calls below are made in the
  initial state. The first ends having announced D. The second, when its response holds
  D again, finds D new once more and alerts it a second time; when its response holds D
  and a later E, it replaces the announced set by \<open>{E}\<close>, so that the announced set
  after the call does not contain the set before it. For calls that run one after
  another the invariant holds (lemma \<open>sequential_announced_monotone\<close>).
\<close>

theorem C2_overlapping_calls:
  "announcedEarthquakeIds firstDone = {''D''}
   \<and> novel (fetchEarthquakesFrom sampleEnv 1700003545000 fetchD idle firstDone)
       = [quake ''D'' ''Afar, Ethiopia'' 1700000000000]
   \<and> novel (fetchEarthquakesFrom sampleEnv 1700003660000 fetchDE idle firstDone)
       = [quake ''E'' ''Afar, Ethiopia'' 1700003600000]
   \<and> announcedEarthquakeIds
       (reached (fetchEarthquakesFrom sampleEnv 1700003660000 fetchDE idle firstDone)) = {''E''}
   \<and> \<not> announcedEarthquakeIds firstDone
         \<subseteq> announcedEarthquakeIds
             (reached (fetchEarthquakesFrom sampleEnv 1700003660000 fetchDE idle firstDone))"
proof -
  have a: "announcedEarthquakeIds firstDone = {''D''}"
    unfolding firstDone_def fetchD_def
    by (simp add: fetch_from_features(2) [OF fetchD_valid]) (simp add: overlap_eval)
  have b: "novel (fetchEarthquakesFrom sampleEnv 1700003545000 fetchD idle firstDone)
       = [quake ''D'' ''Afar, Ethiopia'' 1700000000000]"
    unfolding fetchD_def
    by (simp add: fetch_from_features(1) [OF fetchD_valid]) (simp add: overlap_eval)
  have c: "novel (fetchEarthquakesFrom sampleEnv 1700003660000 fetchDE idle firstDone)
       = [quake ''E'' ''Afar, Ethiopia'' 1700003600000]"
    unfolding fetchDE_def
    by (simp add: fetch_from_features(1) [OF fetchDE_valid]) (simp add: overlap_eval)
  have d: "announcedEarthquakeIds
       (reached (fetchEarthquakesFrom sampleEnv 1700003660000 fetchDE idle firstDone)) = {''E''}"
    unfolding fetchDE_def
    by (simp add: fetch_from_features(2) [OF fetchDE_valid]) (simp add: overlap_eval)
  from a b c d show ?thesis by simp
qed

text \<open>
  Claim C3. The classifier answers true on "Addis Ababa, Ethiopia", false on
  "Red Sea, Yemen", false on "Khartoum, Sudan" and false on the empty string. On
  "52 km NNE of Mekele" it answers false, not true: the keyword list spells the city
  \<open>mekelle\<close>, and the piece after "of " is tested against that same list.
\<close>

theorem C3_classifier_examples:
  "isEthiopiaLocation ''Addis Ababa, Ethiopia'' = Inr True
   \<and> isEthiopiaLocation ''Red Sea, Yemen'' = Inr False
   \<and> isEthiopiaLocation ''52 km NNE of Mekele'' = Inr False
   \<and> isEthiopiaLocation ''Khartoum, Sudan'' = Inr False
   \<and> isEthiopiaLocation [] = Inr False"
  by (simp add: classifier_eval)

text \<open>
  Claim C4. Exclusion precedence: when the lowercased place text contains a keyword of
  the exclusion list and does not contain "ethiopia", the classifier returns false,
  whatever inclusion keywords the text contains as well.
\<close>

theorem C4_exclusion_precedence:
  assumes "country \<in> set excludeCountries"
    and "includes_js (toLowerCase placeName) country"
    and "\<not> includes_js (toLowerCase placeName) ''ethiopia''"
  shows "isEthiopiaLocation placeName = Inr False"
proof -
  from assms have "excludedPass (toLowerCase placeName)"
    unfolding excludedPass_def list_ex_iff by blast
  then show ?thesis by (simp add: isEthiopiaLocation_def Let_def)
qed

theorem C4_exclusion_precedence_witness:
  "''eritrea'' \<in> set excludeCountries
   \<and> includes_js (toLowerCase ''Afar region, Eritrea'') ''eritrea''
   \<and> includes_js (toLowerCase ''Afar region, Eritrea'') ''afar''
   \<and> \<not> includes_js (toLowerCase ''Afar region, Eritrea'') ''ethiopia''
   \<and> isEthiopiaLocation ''Afar region, Eritrea'' = Inr False"
proof -
  have a: "''eritrea'' \<in> set excludeCountries" by (simp add: excludeCountries_def)
  have b: "includes_js (toLowerCase ''Afar region, Eritrea'') ''eritrea''"
    by (simp add: toLowerCase_def toLowerChar_def)
  have c: "\<not> includes_js (toLowerCase ''Afar region, Eritrea'') ''ethiopia''"
    by (simp add: toLowerCase_def toLowerChar_def)
  have d: "includes_js (toLowerCase ''Afar region, Eritrea'') ''afar''"
    by (simp add: toLowerCase_def toLowerChar_def)
  from C4_exclusion_precedence [OF a b c] a b c d show ?thesis by blast
qed




text \<open>
  Claim C6. For a store of admitted records and any criteria, the filtered list is the
  order-preserving sublist of the records whose origin time and magnitude are not null,
  whose origin time is at or after the start date and at or before the end date where
  these are set, and whose magnitude is at least the minimum; the store itself and the
  criteria are left as they were, and no record with a null magnitude is in the result.
\<close>

theorem C6_filter_contract:
  assumes "list_all admitted (earthquakes st)"
  shows "filteredEarthquakes (applyFilters E st) = filter (included E st) (earthquakes st)
         \<and> earthquakes (applyFilters E st) = earthquakes st
         \<and> startDate (applyFilters E st) = startDate st
         \<and> endDate (applyFilters E st) = endDate st
         \<and> minMag (applyFilters E st) = minMag st
         \<and> list_all (\<lambda>r. magOf r \<noteq> None) (filteredEarthquakes (applyFilters E st))"
proof -
  have "filter (keeps E st) (earthquakes st) = filter (included E st) (earthquakes st)"
    using assms by (intro filter_cong) (auto simp: list_all_iff keeps_admitted)
  moreover have "list_all (\<lambda>r. magOf r \<noteq> None) (filter (keeps E st) (earthquakes st))"
    by (auto simp: list_all_iff keeps_magnitude)
  ultimately show ?thesis by (auto simp: applyFilters_def)
qed

theorem C6_filter_contract_witness:
  "list_all admitted (earthquakes stored)
   \<and> filteredEarthquakes (applyFilters sampleEnv stored)
       = [quake ''D'' ''Afar, Ethiopia'' 1700000000000]
   \<and> earthquakes (applyFilters sampleEnv stored) = earthquakes stored"
proof -
  have n: "admitted nullMagnitude"
    by (simp add: admitted_def validFeature_def nullMagnitude_def truthyTime_def afar_in_region)
  have a: "list_all admitted (earthquakes stored)"
    by (simp add: stored_def idle_def admitted_quake afar_in_region n)
  have f: "filter (included sampleEnv stored) (earthquakes stored)
             = [quake ''D'' ''Afar, Ethiopia'' 1700000000000]"
    by (simp add: stored_def idle_def included_def quake_def nullMagnitude_def timeOf_def
          magOf_def sampleEnv_def newDate_def date_ge_def)
  from C6_filter_contract [OF a, of sampleEnv] a f show ?thesis by simp
qed

text \<open>
  Claim C7, as stated, fails for a place that contains a line feed: the record passes the
  filter, and its row spans two lines of the file. One record gives three lines.
\<close>

theorem C7_counterexample:
  "admitted twoLinePlace
   \<and> filteredEarthquakes brokenLine = [twoLinePlace]
   \<and> csvLines sampleEnv brokenLine =
       [''Earthquake ID,Location/Place,Magnitude,Date & Time,Longitude,Latitude,Depth (km),USGS URL'',
        ''L,Afar'',
        ''Ethiopia,5.00,11/14/2023, 10:13:20 PM,39.000000,9.000000,10.00,https://earthquake.usgs.gov/x'']
   \<and> length (csvLines sampleEnv brokenLine) \<noteq> length (filteredEarthquakes brokenLine) + 1"
proof -
  have "isEthiopiaLocation ''Afar\<newline>Ethiopia'' = Inr True"
    by (simp add: classifier_eval)
  then have a: "admitted twoLinePlace"
    by (simp add: twoLinePlace_def admitted_quake)
  have l: "csvLines sampleEnv brokenLine =
       [''Earthquake ID,Location/Place,Magnitude,Date & Time,Longitude,Latitude,Depth (km),USGS URL'',
        ''L,Afar'',
        ''Ethiopia,5.00,11/14/2023, 10:13:20 PM,39.000000,9.000000,10.00,https://earthquake.usgs.gov/x'']"
    by (simp add: brokenLine_filtered twoLinePlace_def export_eval)
  from a l show ?thesis by (simp add: brokenLine_filtered)
qed

text \<open>
  Claim C7, amended. For a non-empty filtered list of N records whose rows contain no
  line feed, \<^verbatim>\<open>downloadCSV\<close> saves the byte order mark followed by a text of exactly
  N + 1 lines: the header line, then the rows of the records in input order; and the
  row of a record whose place contains a comma starts with the id, a comma, and the
  place wrapped in double quotes.
\<close>

theorem C7_csv_shape:
  assumes "filteredEarthquakes st \<noteq> []"
    and "csvRows E st = Inr rows"
    and "list_all (\<lambda>row. CHR 0x0A \<notin> set row) rows"
  shows \<open>downloadCSV E st =
           (st, [Download (exportName st ''.csv'')
                   (TextBlob ([CHR 0xEF, CHR 0xBB, CHR 0xBF] @ csvText rows)
                      ''text/csv;charset=utf-8;'')])
         \<and> csvLines E st = join_js '','' headers # rows
         \<and> length (csvLines E st) = length (filteredEarthquakes st) + 1
         \<and> list_all2 (\<lambda>eq row. csvRow E eq = Inr row) (filteredEarthquakes st) rows
         \<and> list_all2
             (\<lambda>eq row. includes_js (orElse (placeOf eq) ''Unknown location'') '','' \<longrightarrow>
                prefix (feature_id eq @ '',"'' @ orElse (placeOf eq) ''Unknown location'' @ ''",'')
                  row)
             (filteredEarthquakes st) rows\<close>
proof -
  have rows: "list_all2 (\<lambda>eq row. csvRow E eq = Inr row) (filteredEarthquakes st) rows"
    using assms(2) by (simp add: csvRows_def map_r_Inr)
  then have len: "length rows = length (filteredEarthquakes st)"
    by (simp add: list_all2_lengthD)
  have "lines_of (csvText rows) = join_js '','' headers # rows"
    unfolding csvText_def using assms(3) header_one_line
    by (intro lines_of_join) simp_all
  then have lines: "csvLines E st = join_js '','' headers # rows"
    by (simp add: csvLines_def assms(2))
  have quoted: \<open>list_all2
             (\<lambda>eq row. includes_js (orElse (placeOf eq) ''Unknown location'') '','' \<longrightarrow>
                prefix (feature_id eq @ '',"'' @ orElse (placeOf eq) ''Unknown location'' @ ''",'')
                  row)
             (filteredEarthquakes st) rows\<close>
    using rows
  proof (rule list_all2_mono)
    fix eq row
    assume "csvRow E eq = Inr row"
    then have "prefix (feature_id eq @ '','' @ escapedPlace eq @ '','') row"
      by (rule csvRow_place)
    then show \<open>includes_js (orElse (placeOf eq) ''Unknown location'') '','' \<longrightarrow>
                prefix (feature_id eq @ '',"'' @ orElse (placeOf eq) ''Unknown location'' @ ''",'')
                  row\<close>
      by (auto simp: escapedPlace_def Let_def)
  qed
  have "downloadCSV E st =
           (st, [Download (exportName st ''.csv'')
                   (TextBlob ([CHR 0xEF, CHR 0xBB, CHR 0xBF] @ csvText rows)
                      ''text/csv;charset=utf-8;'')])"
    using assms(1,2) by (simp add: downloadCSV_def)
  with lines len rows quoted show ?thesis by simp
qed

theorem C7_csv_shape_witness:
  \<open>filteredEarthquakes filteredD = [quake ''D'' ''Afar, Ethiopia'' 1700000000000]
   \<and> csvLines sampleEnv filteredD =
       [''Earthquake ID,Location/Place,Magnitude,Date & Time,Longitude,Latitude,Depth (km),USGS URL'',
        ''D,"Afar, Ethiopia",5.00,11/14/2023, 10:13:20 PM,39.000000,9.000000,10.00,https://earthquake.usgs.gov/x'']
   \<and> length (csvLines sampleEnv filteredD) = 2\<close>
proof -
  let ?row = \<open>''D,"Afar, Ethiopia",5.00,11/14/2023, 10:13:20 PM,39.000000,9.000000,10.00,https://earthquake.usgs.gov/x''\<close>
  have n: "filteredEarthquakes filteredD \<noteq> []" by (simp add: filteredD_filtered)
  have r: "csvRows sampleEnv filteredD = Inr [?row]"
    by (simp add: filteredD_filtered export_eval)
  have l: "list_all (\<lambda>row. CHR 0x0A \<notin> set row) [?row]" by simp
  from C7_csv_shape [OF n r l] show ?thesis
    by (simp add: filteredD_filtered headers_def)
qed




text \<open>
  Claim C9, as stated, fails for a response that is not a success but carries a feature
  collection: the status of the response is not inspected, and the cycle replaces the
  store.
\<close>

theorem C9_counterexample:
  "earthquakes (reached (fetchEarthquakes sampleEnv 1700000060000
                           (Response False (Json (Some (map Some fetchABD)))) idle))
     \<noteq> earthquakes idle"
  by (simp add: fetch_features(4) [OF fetchABD_valid]) (simp add: idle_def fetchABD_def)

text \<open>
  Claim C9, amended. When the request is rejected, the body is not JSON, or the payload
  has no feature array, the cycle leaves the state as it was, with the loading flag
  cleared: the store, the filtered list and both id sets are unchanged, nothing is
  found new, and the next cycle runs as it would have run from the state before. Other
  ways in which a cycle may fail are not covered.
\<close>

theorem C9_failure_leaves_state:
  assumes "out = Rejected \<or> out = Response ok NotJson \<or> out = Response ok (Json None)"
  shows "reached (fetchEarthquakes E now out st) = st\<lparr>isLoading := False\<rparr>
         \<and> earthquakes (reached (fetchEarthquakes E now out st)) = earthquakes st
         \<and> filteredEarthquakes (reached (fetchEarthquakes E now out st)) = filteredEarthquakes st
         \<and> previousEarthquakeIds (reached (fetchEarthquakes E now out st))
             = previousEarthquakeIds st
         \<and> announcedEarthquakeIds (reached (fetchEarthquakes E now out st))
             = announcedEarthquakeIds st
         \<and> isLoading (reached (fetchEarthquakes E now out st)) = False
         \<and> novel (fetchEarthquakes E now out st) = []
         \<and> fetchEarthquakes E now' out' (reached (fetchEarthquakes E now out st))
             = fetchEarthquakes E now' out' st"
proof -
  have r: "reached (fetchEarthquakes E now out st) = st\<lparr>isLoading := False\<rparr>"
    using assms by (rule fetch_failure(1))
  have n: "novel (fetchEarthquakes E now out st) = []"
    using assms by (rule fetch_failure(2))
  have "fetchEarthquakes E now' out' (st\<lparr>isLoading := False\<rparr>) = fetchEarthquakes E now' out' st"
    by (simp add: fetchEarthquakes_def)
  with r n show ?thesis by simp
qed

theorem C9_failure_leaves_state_witness:
  "reached (fetchEarthquakes sampleEnv 1700000360000 (Response False NotJson) announcedD)
     = announcedD\<lparr>isLoading := False\<rparr>
   \<and> announcedEarthquakeIds
       (reached (fetchEarthquakes sampleEnv 1700000360000 (Response False NotJson) announcedD))
       = {''D''}
   \<and> previousEarthquakeIds
       (reached (fetchEarthquakes sampleEnv 1700000360000 (Response False NotJson) announcedD))
       = {''A'', ''B'', ''D''}"
proof -
  have h: "Response False NotJson = Rejected \<or> Response False NotJson = Response False NotJson
           \<or> Response False NotJson = Response False (Json None)"
    by simp
  from C9_failure_leaves_state [OF h, of sampleEnv 1700000360000 announcedD] announcedD_ids
  show ?thesis by simp
qed

text \<open>
  Claim C10. When the filtered list is empty, \<^verbatim>\<open>downloadCSV\<close> and \<^verbatim>\<open>downloadKMZ\<close>
  leave the state as it is and their only effect is the notice "No earthquakes to
  download for the selected filters."; no file is produced.
\<close>

theorem C10_empty_export_refused:
  assumes "filteredEarthquakes st = []"
  shows "downloadCSV E st = (st, [Alert noEarthquakes])
         \<and> downloadKMZ E zipError st = (st, [Alert noEarthquakes])
         \<and> noEarthquakes = ''No earthquakes to download for the selected filters.''"
  using assms by (simp add: downloadCSV_def downloadKMZ_def noEarthquakes_def)

theorem C10_empty_export_refused_witness:
  "filteredEarthquakes idle = []
   \<and> downloadCSV sampleEnv idle
       = (idle, [Alert ''No earthquakes to download for the selected filters.''])
   \<and> downloadKMZ sampleEnv None idle
       = (idle, [Alert ''No earthquakes to download for the selected filters.''])"
proof -
  have e: "filteredEarthquakes idle = []" by (simp add: idle_def)
  from C10_empty_export_refused [OF e, of sampleEnv None] e show ?thesis by simp
qed

end
